theory Spec2Isabelle
  imports Main "HOL-Library.Sublist" "HOL-Library.AList"
begin

section \<open>JavaScript values\<close>

text \<open>
  The repository holds three variants of one Node.js script:
  \<^item> \<^verbatim>\<open>src/generate-registry-endpoints.js\<close> (JSON and HTML, per-entry validation, raw
    server documents); its functions keep their names here;
  \<^item> \<^verbatim>\<open>src/unnamed/part_000\<close> (JSON and HTML, detail documents wrapped in the
    \<^verbatim>\<open>{server, _meta}\<close> envelope); its functions carry the suffix \<open>_p0\<close>;
  \<^item> \<^verbatim>\<open>src/unnamed/part_001\<close> (JSON only, wrapped detail documents); suffix \<open>_p1\<close>.

  Functions that are textually the same in several variants are defined once.

  A value is what \<^verbatim>\<open>JSON.parse\<close> can return, plus \<^verbatim>\<open>undefined\<close> (the value of an absent
  property). Numbers are the integers; fractions, exponents and the limits of doubles are
  outside the model. A string is a list of bytes (UTF-8); every character the scripts
  look at is ASCII. An object is the list of its properties in enumeration order;
  \<^verbatim>\<open>JSON.parse\<close> gives distinct keys.
\<close>

datatype jsval =
    JUndefined
  | JNull
  | JBool bool
  | JNum int
  | JStr string
  | JArr "jsval list"
  | JObj "(string \<times> jsval) list"

text \<open>Truthiness, as tested by \<^verbatim>\<open>!x\<close>.\<close>

fun truthy :: "jsval \<Rightarrow> bool" where
  "truthy JUndefined = False"
| "truthy JNull = False"
| "truthy (JBool b) = b"
| "truthy (JNum n) = (n \<noteq> 0)"
| "truthy (JStr s) = (s \<noteq> [])"
| "truthy (JArr xs) = True"
| "truthy (JObj kvs) = True"

fun nullish :: "jsval \<Rightarrow> bool" where
  "nullish JUndefined = True"
| "nullish JNull = True"
| "nullish v = False"

fun isArray :: "jsval \<Rightarrow> bool" where
  "isArray (JArr xs) = True"
| "isArray v = False"

fun elements :: "jsval \<Rightarrow> jsval list" where
  "elements (JArr xs) = xs"
| "elements v = []"

text \<open>
  Reading a property \<^verbatim>\<open>v.k\<close> of a value that is neither \<^verbatim>\<open>null\<close> nor \<^verbatim>\<open>undefined\<close>
  (on those the read throws, which the callers model by testing \<open>nullish\<close> first).
  The scripts read the names \<^verbatim>\<open>servers\<close>, \<^verbatim>\<open>id\<close>, \<^verbatim>\<open>name\<close> and \<^verbatim>\<open>version\<close>, none of
  which is built into a primitive or an array.
\<close>

fun getProp :: "jsval \<Rightarrow> string \<Rightarrow> jsval" where
  "getProp (JObj kvs) k = (case map_of kvs k of Some v \<Rightarrow> v | None \<Rightarrow> JUndefined)"
| "getProp v k = JUndefined"

subsection \<open>Conversion to string\<close>

fun join :: "string \<Rightarrow> string list \<Rightarrow> string" where
  "join sep [] = []"
| "join sep [x] = x"
| "join sep (x # y # ys) = x @ sep @ join sep (y # ys)"

fun digits :: "nat \<Rightarrow> string" where
  "digits n = (if n < 10 then [''0123456789'' ! n]
               else digits (n div 10) @ [''0123456789'' ! (n mod 10)])"

declare digits.simps [simp del]

definition numberToString :: "int \<Rightarrow> string" where
  "numberToString n = (if n < 0 then CHR ''-'' # digits (nat (- n)) else digits (nat n))"

text \<open>\<^verbatim>\<open>String(v)\<close>, which is also what a template literal and \<^verbatim>\<open>RegExp.test\<close> apply.\<close>

fun toString :: "jsval \<Rightarrow> string" where
  "toString JUndefined = ''undefined''"
| "toString JNull = ''null''"
| "toString (JBool b) = (if b then ''true'' else ''false'')"
| "toString (JNum n) = numberToString n"
| "toString (JStr s) = s"
| "toString (JArr xs) =
     join '','' (map (\<lambda>x. if nullish x then [] else toString x) xs)"
| "toString (JObj kvs) = ''[object Object]''"

section \<open>escapeHtml\<close>

text \<open>
  \<^verbatim>\<open>String.prototype.replace\<close> with a global single-character pattern: every occurrence
  of the character is replaced, left to right.
\<close>

definition replaceAll :: "char \<Rightarrow> string \<Rightarrow> string \<Rightarrow> string" where
  "replaceAll c r s = concat (map (\<lambda>x. if x = c then r else [x]) s)"

text \<open>The five replacements run one after the other, in the order of the source.\<close>

definition escapeHtml :: "jsval \<Rightarrow> string" where
  "escapeHtml text =
     (if \<not> truthy text then []
      else replaceAll (CHR 0x27) ''&#039;''
            (replaceAll (CHR 0x22) ''&quot;''
              (replaceAll CHR ''>'' ''&gt;''
                (replaceAll CHR ''<'' ''&lt;''
                  (replaceAll CHR ''&'' ''&amp;'' (toString text))))))"

text \<open>What the five replacements together make of one character of the input.\<close>

definition escapeChar :: "char \<Rightarrow> string" where
  "escapeChar c =
     (if c = CHR ''&'' then ''&amp;''
      else if c = CHR ''<'' then ''&lt;''
      else if c = CHR ''>'' then ''&gt;''
      else if c = CHR 0x22 then ''&quot;''
      else if c = CHR 0x27 then ''&#039;''
      else [c])"

section \<open>isValidServerId\<close>

definition inRange :: "char \<Rightarrow> char \<Rightarrow> char \<Rightarrow> bool" where
  "inRange lo hi c = ((of_char lo :: nat) \<le> of_char c \<and> (of_char c :: nat) \<le> of_char hi)"

text \<open>
  The class \<^verbatim>\<open>[a-z0-9\-]\<close> under the flag \<^verbatim>\<open>i\<close> (without the flag \<^verbatim>\<open>u\<close> no
  non-ASCII character folds onto an ASCII letter).
\<close>

definition idChar :: "char \<Rightarrow> bool" where
  "idChar c = (inRange CHR ''a'' CHR ''z'' c \<or> inRange CHR ''A'' CHR ''Z'' c
               \<or> inRange CHR ''0'' CHR ''9'' c \<or> c = CHR ''-'')"

text \<open>The class \<^verbatim>\<open>[a-z0-9\-.]\<close> of \<^verbatim>\<open>part_000\<close>, under the same flag.\<close>

definition idChar_p0 :: "char \<Rightarrow> bool" where
  "idChar_p0 c = (inRange CHR ''a'' CHR ''z'' c \<or> inRange CHR ''A'' CHR ''Z'' c
                  \<or> inRange CHR ''0'' CHR ''9'' c \<or> c = CHR ''-'' \<or> c = CHR ''.'')"

text \<open>
  \<^verbatim>\<open>/^[...]+$/i.test(id)\<close>: the argument is converted to a string, which must be
  non-empty and consist of characters of the class only.
\<close>

definition isValidServerId :: "jsval \<Rightarrow> bool" where
  "isValidServerId ident = (let s = toString ident in s \<noteq> [] \<and> list_all idChar s)"

definition isValidServerId_p0 :: "jsval \<Rightarrow> bool" where
  "isValidServerId_p0 ident = (let s = toString ident in s \<noteq> [] \<and> list_all idChar_p0 s)"

text \<open>
  The grammar of the specification, \<^verbatim>\<open>^[A-Za-z0-9.\-]+$\<close>, written from its words:
  one or more characters, each a letter, a digit, a dot or a hyphen.
\<close>

definition specIdAlphabet :: "char set" where
  "specIdAlphabet =
     set ''ABCDEFGHIJKLMNOPQRSTUVWXYZabcdefghijklmnopqrstuvwxyz0123456789.-''"

definition specIdGrammar :: "string \<Rightarrow> bool" where
  "specIdGrammar s = (s \<noteq> [] \<and> set s \<subseteq> specIdAlphabet)"

section \<open>Errors and the outside world\<close>

text \<open>
  Every way a run ends other than by reaching the end of \<^verbatim>\<open>main\<close>. The first five are the
  diagnostics of \<^verbatim>\<open>readRegistry\<close>, under the names the specification gives them;
  \<open>ReadError\<close> is the catch-all branch of its \<^verbatim>\<open>catch\<close>; \<open>TypeError\<close> is an exception
  thrown outside any \<^verbatim>\<open>try\<close> (a property read on \<^verbatim>\<open>null\<close>, a non-string handed to
  \<^verbatim>\<open>path.join\<close>), which ends the process where it is thrown.
\<close>

datatype error =
    NotFoundError
  | ParseError
  | SchemaError
  | MissingFieldError nat
  | InvalidIdError string
  | ReadError
  | TypeError

text \<open>
  What \<^verbatim>\<open>fs.readFileSync\<close> followed by \<^verbatim>\<open>JSON.parse\<close> meets: no file, a file that
  cannot be read, text that is not JSON, or a parsed document.
\<close>

datatype source = NoFile | Unreadable | BadJson | Doc jsval

text \<open>
  The file system as the scripts use it: the files with their contents, the directories,
  and the number of times the clock has been read so far. The clock itself is a
  parameter \<open>clk\<close>: \<open>clk n\<close> is the text \<^verbatim>\<open>new Date().toISOString()\<close> returns at
  the \<open>n\<close>-th reading. Writes always succeed (a full disk is outside the model), and
  console output is not recorded.
\<close>

record world =
  files :: "(string \<times> string) list"
  dirs :: "string list"
  ticks :: nat

type_synonym action = "world \<Rightarrow> error option \<times> world"

text \<open>Statements in sequence; an exception or \<^verbatim>\<open>process.exit\<close> skips the rest.\<close>

fun seqAll :: "action list \<Rightarrow> action" where
  "seqAll [] w = (None, w)"
| "seqAll (a # as) w = (case a w of (None, w') \<Rightarrow> seqAll as w' | (Some e, w') \<Rightarrow> (Some e, w'))"

definition under :: "string \<Rightarrow> string \<Rightarrow> bool" where
  "under d p = (p = d \<or> prefix (d @ ''/'') p)"

definition existsSync :: "string \<Rightarrow> world \<Rightarrow> bool" where
  "existsSync p w = (p \<in> set (dirs w) \<or> p \<in> set (map fst (files w)))"

definition rmSync :: "string \<Rightarrow> world \<Rightarrow> world" where
  "rmSync d w = w\<lparr>files := filter (\<lambda>(p, c). \<not> under d p) (files w),
                  dirs := filter (\<lambda>p. \<not> under d p) (dirs w)\<rparr>"

definition writeFileSync :: "string \<Rightarrow> string \<Rightarrow> world \<Rightarrow> world" where
  "writeFileSync p content w = w\<lparr>files := AList.update p content (files w)\<rparr>"

subsection \<open>Paths\<close>

fun splitOn :: "char \<Rightarrow> string \<Rightarrow> string list" where
  "splitOn c [] = [[]]"
| "splitOn c (x # xs) =
     (if x = c then [] # splitOn c xs
      else (case splitOn c xs of [] \<Rightarrow> [[x]] | s # ss \<Rightarrow> (x # s) # ss))"

text \<open>
  POSIX \<^verbatim>\<open>path.normalize\<close>: empty and \<^verbatim>\<open>.\<close> segments disappear, \<^verbatim>\<open>..\<close> removes the segment
  before it (or stays, in a relative path with nothing left to remove).
\<close>

fun normSegs :: "bool \<Rightarrow> string list \<Rightarrow> string list \<Rightarrow> string list" where
  "normSegs allowAbove acc [] = acc"
| "normSegs allowAbove acc (seg # segs) =
     (if seg = [] \<or> seg = ''.'' then normSegs allowAbove acc segs
      else if seg = ''..'' then
        (if acc \<noteq> [] \<and> last acc \<noteq> ''..'' then normSegs allowAbove (butlast acc) segs
         else if allowAbove then normSegs allowAbove (acc @ [seg]) segs
         else normSegs allowAbove acc segs)
      else normSegs allowAbove (acc @ [seg]) segs)"

definition normalize_path :: "string \<Rightarrow> string" where
  "normalize_path p =
     (if p = [] then ''.''
      else
        let isAbsolute = (hd p = CHR ''/'');
            trailingSeparator = (last p = CHR ''/'');
            q = join ''/'' (normSegs (\<not> isAbsolute) [] (splitOn CHR ''/'' p))
        in if q = [] then (if isAbsolute then ''/'' else if trailingSeparator then ''./'' else ''.'')
           else (if isAbsolute then ''/'' else []) @ q @ (if trailingSeparator then ''/'' else []))"

text \<open>\<^verbatim>\<open>path.join\<close> on strings: the non-empty arguments, joined by a slash, normalised.\<close>

definition pjoin :: "string list \<Rightarrow> string" where
  "pjoin args =
     (let parts = filter (\<lambda>a. a \<noteq> []) args
      in if parts = [] then ''.'' else normalize_path (join ''/'' parts))"

fun isString :: "jsval \<Rightarrow> bool" where
  "isString (JStr s) = True"
| "isString v = False"

text \<open>\<^verbatim>\<open>path.join\<close> on arbitrary values: an argument that is not a string is a TypeError.\<close>

definition path_join :: "jsval list \<Rightarrow> error + string" where
  "path_join args =
     (if list_all isString args then Inr (pjoin (map toString args)) else Inl TypeError)"

text \<open>POSIX \<^verbatim>\<open>path.dirname\<close>.\<close>

definition dirname :: "string \<Rightarrow> string" where
  "dirname p =
     (if p = [] then ''.''
      else
        let hasRoot = (hd p = CHR ''/'');
            r = dropWhile (\<lambda>c. c \<noteq> CHR ''/'')
                  (dropWhile (\<lambda>c. c = CHR ''/'') (rev (tl p)))
        in if r = [] then (if hasRoot then ''/'' else ''.'')
           else if hasRoot \<and> tl r = [] then ''//''
           else hd p # rev (tl r))"

text \<open>\<^verbatim>\<open>fs.mkdirSync(d, {recursive: true})\<close> creates the directory and its missing parents.\<close>

definition dirChain :: "string \<Rightarrow> string list" where
  "dirChain d = filter (\<lambda>p. p \<noteq> []) (map (join ''/'') (tl (prefixes (splitOn CHR ''/'' d))))"

definition mkdirSync :: "string \<Rightarrow> world \<Rightarrow> world" where
  "mkdirSync d w = w\<lparr>dirs := fold List.insert (dirChain d) (dirs w)\<rparr>"

definition ensureDir :: "string \<Rightarrow> world \<Rightarrow> world" where
  "ensureDir dirPath w = (if \<not> existsSync dirPath w then mkdirSync dirPath w else w)"

subsection \<open>JSON.stringify with an indentation of two spaces\<close>

definition hexDigit :: "nat \<Rightarrow> char" where
  "hexDigit d = ''0123456789abcdef'' ! d"

definition quoteChar :: "char \<Rightarrow> string" where
  "quoteChar c =
     (if c = CHR 0x08 then [CHR 0x5C, CHR ''b'']
      else if c = CHR 0x09 then [CHR 0x5C, CHR ''t'']
      else if c = CHR 0x0A then [CHR 0x5C, CHR ''n'']
      else if c = CHR 0x0C then [CHR 0x5C, CHR ''f'']
      else if c = CHR 0x0D then [CHR 0x5C, CHR ''r'']
      else if c = CHR 0x22 then [CHR 0x5C, CHR 0x22]
      else if c = CHR 0x5C then [CHR 0x5C, CHR 0x5C]
      else if (of_char c :: nat) < 32
        then [CHR 0x5C, CHR ''u'', CHR ''0'', CHR ''0'',
              hexDigit (of_char c div 16), hexDigit (of_char c mod 16)]
      else [c])"

definition quoteJSONString :: "string \<Rightarrow> string" where
  "quoteJSONString s = CHR 0x22 # concat (map quoteChar s) @ [CHR 0x22]"

definition nl :: string where
  "nl = [CHR 0x0A]"

text \<open>
  \<open>stringifyAt ind v\<close> serialises \<open>v\<close> at the current indentation \<open>ind\<close>. An
  \<^verbatim>\<open>undefined\<close> array element is written \<^verbatim>\<open>null\<close>; an \<^verbatim>\<open>undefined\<close> property is left out.
\<close>

fun stringifyAt :: "string \<Rightarrow> jsval \<Rightarrow> string" where
  "stringifyAt ind JUndefined = ''null''"
| "stringifyAt ind JNull = ''null''"
| "stringifyAt ind (JBool b) = (if b then ''true'' else ''false'')"
| "stringifyAt ind (JNum n) = numberToString n"
| "stringifyAt ind (JStr s) = quoteJSONString s"
| "stringifyAt ind (JArr xs) =
     (if xs = [] then ''[]''
      else ''['' @ nl @ (ind @ ''  '')
           @ join ('','' @ nl @ (ind @ ''  '')) (map (stringifyAt (ind @ ''  '')) xs)
           @ nl @ ind @ '']'')"
| "stringifyAt ind (JObj kvs) =
     (let members = filter (\<lambda>kv. snd kv \<noteq> JUndefined) kvs
      in if members = [] then ''{}''
         else ''{'' @ nl @ (ind @ ''  '')
              @ join ('','' @ nl @ (ind @ ''  ''))
                  (map (\<lambda>kv. quoteJSONString (fst kv) @ '': '' @ stringifyAt (ind @ ''  '') (snd kv))
                     members)
              @ nl @ ind @ ''}'')"

text \<open>\<^verbatim>\<open>JSON.stringify(data, null, 2)\<close>: a string, or \<^verbatim>\<open>undefined\<close> for \<^verbatim>\<open>undefined\<close>.\<close>

definition JSON_stringify :: "jsval \<Rightarrow> jsval" where
  "JSON_stringify data = (if data = JUndefined then JUndefined else JStr (stringifyAt [] data))"

section \<open>Writing documents\<close>

definition REGISTRY_FILE :: string where
  "REGISTRY_FILE = ''mcp-registry.json''"

definition OUTPUT_DIR :: string where
  "OUTPUT_DIR = ''dist''"

definition API_BASE :: string where
  "API_BASE = ''v0.1''"

definition SCHEMA_URL :: string where
  "SCHEMA_URL = ''https://static.modelcontextprotocol.io/schemas/2025-09-29/server.schema.json''"

text \<open>
  \<^verbatim>\<open>writeJSON\<close> is the same in the three variants. \<^verbatim>\<open>fs.writeFileSync\<close> refuses
  \<^verbatim>\<open>undefined\<close> as content.
\<close>

definition writeJSON :: "string \<Rightarrow> jsval \<Rightarrow> action" where
  "writeJSON filePath data w =
     (let w1 = ensureDir (dirname filePath) w
      in case JSON_stringify data of
           JStr content \<Rightarrow> (None, writeFileSync filePath content w1)
         | _ \<Rightarrow> (Some TypeError, w1))"

text \<open>The page template of \<^verbatim>\<open>writeHTML\<close> in \<^verbatim>\<open>generate-registry-endpoints.js\<close>.\<close>

definition htmlPage :: "string \<Rightarrow> string \<Rightarrow> string" where
  \<open>htmlPage escapedTitle escapedJson = join nl
     [''<!DOCTYPE html>'',
      ''<html lang="en">'',
      ''<head>'',
      ''  <meta charset="UTF-8">'',
      ''  <meta name="viewport" content="width=device-width, initial-scale=1.0">'',
      ''  <title>'' @ escapedTitle @ '' - MCP Registry</title>'',
      ''  <style>'',
      ''    body { font-family: system-ui, sans-serif; max-width: 1000px; margin: 0 auto; padding: 20px; background: #f5f5f5; }'',
      ''    h1 { color: #333; border-bottom: 2px solid #007bff; padding-bottom: 10px; }'',
      ''    pre { background: #fff; padding: 20px; border-radius: 8px; overflow-x: auto; box-shadow: 0 2px 4px rgba(0,0,0,0.1); }'',
      ''    .info { background: #e7f3ff; padding: 15px; border-radius: 5px; margin-bottom: 20px; border-left: 4px solid #007bff; }'',
      ''    a { color: #007bff; text-decoration: none; }'',
      ''    a:hover { text-decoration: underline; }'',
      ''  </style>'',
      ''</head>'',
      ''<body>'',
      ''  <h1>'' @ escapedTitle @ ''</h1>'',
      ''  <div class="info">'',
      ''    <p><strong>API Endpoint:</strong> This page serves as a static JSON API endpoint.</p>'',
      ''  </div>'',
      ''  <h2>JSON Response</h2>'',
      ''  <pre><code>'' @ escapedJson @ ''</code></pre>'',
      ''  <hr>'',
      ''  <p><small><a href="/">Back to Registry Home</a></small></p>'',
      ''</body>'',
      ''</html>'']\<close>

definition writeHTML :: "string \<Rightarrow> jsval \<Rightarrow> jsval \<Rightarrow> action" where
  "writeHTML filePath data title w =
     (let w1 = ensureDir (dirname filePath) w;
          escapedTitle = escapeHtml title;
          jsonString = JSON_stringify data;
          escapedJson = escapeHtml jsonString
      in (None, writeFileSync filePath (htmlPage escapedTitle escapedJson) w1))"

text \<open>The page template of \<^verbatim>\<open>writeHTML\<close> in \<^verbatim>\<open>part_000\<close>.\<close>

definition htmlPage_p0 :: "string \<Rightarrow> string \<Rightarrow> string" where
  \<open>htmlPage_p0 escapedTitle escapedJson = join nl
     [''<!DOCTYPE html>'',
      ''<html lang="en">'',
      ''<head>'',
      ''  <meta charset="UTF-8">'',
      ''  <title>'' @ escapedTitle @ ''</title>'',
      ''  <style>'',
      ''    body { font-family: system-ui; max-width: 800px; margin: 20px auto; padding: 20px; background: #f4f4f4; }'',
      ''    pre { background: #fff; padding: 15px; border-radius: 5px; overflow-x: auto; }'',
      ''  </style>'',
      ''</head>'',
      ''<body>'',
      ''  <h1>'' @ escapedTitle @ ''</h1>'',
      ''  <p>This is a static JSON endpoint.</p>'',
      ''  <pre><code>'' @ escapedJson @ ''</code></pre>'',
      ''</body>'',
      ''</html>'']\<close>

definition writeHTML_p0 :: "string \<Rightarrow> jsval \<Rightarrow> jsval \<Rightarrow> action" where
  "writeHTML_p0 filePath data title w =
     (let w1 = ensureDir (dirname filePath) w
      in (None, writeFileSync filePath
                  (htmlPage_p0 (escapeHtml title) (escapeHtml (JSON_stringify data))) w1))"

text \<open>A step that needs a path: \<^verbatim>\<open>path.join\<close> may throw before the step starts.\<close>

definition withPath :: "error + string \<Rightarrow> (string \<Rightarrow> action) \<Rightarrow> action" where
  "withPath r f w = (case r of Inl e \<Rightarrow> (Some e, w) | Inr p \<Rightarrow> f p w)"

section \<open>readRegistry\<close>

text \<open>
  The body of the \<^verbatim>\<open>forEach\<close> callback of \<^verbatim>\<open>readRegistry\<close> in
  \<^verbatim>\<open>generate-registry-endpoints.js\<close>. Reading \<^verbatim>\<open>server.id\<close> of a \<^verbatim>\<open>null\<close> entry throws
  inside the \<^verbatim>\<open>try\<close>, and the \<^verbatim>\<open>catch\<close> reports it through its last branch.
\<close>

definition validateEntry :: "nat \<Rightarrow> jsval \<Rightarrow> error option" where
  "validateEntry index server =
     (if nullish server then Some ReadError
      else if \<not> truthy (getProp server ''id'') \<or> \<not> truthy (getProp server ''name'')
              \<or> \<not> truthy (getProp server ''version'')
        then Some (MissingFieldError index)
      else if \<not> isValidServerId (getProp server ''id'')
        then Some (InvalidIdError (toString (getProp server ''id'')))
      else None)"

text \<open>\<^verbatim>\<open>forEach\<close>, with \<^verbatim>\<open>process.exit(1)\<close> in the callback ending the scan.\<close>

fun validateEntries :: "nat \<Rightarrow> jsval list \<Rightarrow> error option" where
  "validateEntries index [] = None"
| "validateEntries index (server # rest) =
     (case validateEntry index server of
        Some e \<Rightarrow> Some e
      | None \<Rightarrow> validateEntries (Suc index) rest)"

definition readRegistry :: "source \<Rightarrow> error + jsval" where
  "readRegistry src =
     (case src of
        NoFile \<Rightarrow> Inl NotFoundError
      | Unreadable \<Rightarrow> Inl ReadError
      | BadJson \<Rightarrow> Inl ParseError
      | Doc registry \<Rightarrow>
          if nullish registry then Inl ReadError
          else if \<not> truthy (getProp registry ''servers'') \<or> \<not> isArray (getProp registry ''servers'')
            then Inl SchemaError
          else (case validateEntries 0 (elements (getProp registry ''servers'')) of
                  Some e \<Rightarrow> Inl e
                | None \<Rightarrow> Inr registry))"

text \<open>The text each diagnostic prints with \<^verbatim>\<open>console.error\<close> before \<^verbatim>\<open>process.exit(1)\<close>
  (for \<open>ParseError\<close> and \<open>ReadError\<close>, the part before the engine's own message; an
  uncaught \<open>TypeError\<close> prints the engine's report, which is not modelled).\<close>

fun diagnostic :: "error \<Rightarrow> string" where
  \<open>diagnostic NotFoundError = ''Error: Registry file "'' @ REGISTRY_FILE @ ''" not found''\<close>
| \<open>diagnostic ParseError = ''Error: Invalid JSON in "'' @ REGISTRY_FILE @ ''":''\<close>
| \<open>diagnostic SchemaError = ''Error: Registry must contain a "servers" array''\<close>
| \<open>diagnostic (MissingFieldError index) =
     ''Error: Server at index '' @ toString (JNum (int index))
     @ '' is missing required fields (id, name, version)''\<close>
| \<open>diagnostic (InvalidIdError ident) =
     ''Error: Server "'' @ ident
     @ ''" has invalid ID. Only alphanumeric characters and hyphens are allowed.''\<close>
| \<open>diagnostic ReadError = ''Error reading '' @ REGISTRY_FILE @ '':''\<close>
| \<open>diagnostic TypeError = []\<close>

text \<open>\<^verbatim>\<open>readRegistry\<close> of \<^verbatim>\<open>part_000\<close>: the shape check only, one message for every failure.\<close>

definition readRegistry_p0 :: "source \<Rightarrow> error + jsval" where
  "readRegistry_p0 src =
     (case src of
        Doc registry \<Rightarrow>
          if nullish registry then Inl ReadError
          else if \<not> truthy (getProp registry ''servers'') \<or> \<not> isArray (getProp registry ''servers'')
            then Inl SchemaError
          else Inr registry
      | _ \<Rightarrow> Inl ReadError)"

text \<open>\<^verbatim>\<open>readRegistry\<close> of \<^verbatim>\<open>part_001\<close>: whatever parses is returned.\<close>

definition readRegistry_p1 :: "source \<Rightarrow> error + jsval" where
  "readRegistry_p1 src = (case src of Doc registry \<Rightarrow> Inr registry | _ \<Rightarrow> Inl ReadError)"

section \<open>generate-registry-endpoints.js\<close>

definition generateServersEndpoint :: "jsval \<Rightarrow> action" where
  "generateServersEndpoint registry =
     (let apiPath = pjoin [OUTPUT_DIR, API_BASE, ''servers'']
      in seqAll [writeJSON (pjoin [apiPath, ''index.json'']) registry,
                 writeHTML (pjoin [apiPath, ''index.html'']) registry (JStr ''All MCP Servers'')])"

text \<open>
  The callback of \<^verbatim>\<open>forEach\<close> in \<^verbatim>\<open>generateServerDetailEndpoints\<close>: the raw server record
  at the bare path, at the version path and at the latest path.
\<close>

definition serverDetail :: "jsval \<Rightarrow> action" where
  "serverDetail server =
     (if nullish server then (\<lambda>w. (Some TypeError, w))
      else
        let serverId = getProp server ''id'';
            version = getProp server ''version'';
            name = toString (getProp server ''name'')
        in withPath (path_join [JStr OUTPUT_DIR, JStr API_BASE, JStr ''servers'', serverId])
             (\<lambda>serverBasePath. seqAll
                [writeJSON (pjoin [serverBasePath, ''index.json'']) server,
                 writeHTML (pjoin [serverBasePath, ''index.html'']) server
                   (JStr (name @ '' - Details'')),
                 withPath (path_join [JStr serverBasePath, JStr ''versions'', version])
                   (\<lambda>versionPath. seqAll
                      [writeJSON (pjoin [versionPath, ''index.json'']) server,
                       writeHTML (pjoin [versionPath, ''index.html'']) server
                         (JStr (name @ '' v'' @ toString version))]),
                 (let latestPath = pjoin [serverBasePath, ''versions'', ''latest'']
                  in seqAll
                      [writeJSON (pjoin [latestPath, ''index.json'']) server,
                       writeHTML (pjoin [latestPath, ''index.html'']) server
                         (JStr (name @ '' (Latest)''))])]))"

definition generateServerDetailEndpoints :: "jsval \<Rightarrow> action" where
  "generateServerDetailEndpoints registry =
     (if nullish registry then (\<lambda>w. (Some TypeError, w))
      else if \<not> truthy (getProp registry ''servers'') \<or> \<not> isArray (getProp registry ''servers'')
        then (\<lambda>w. (None, w))
      else seqAll (map serverDetail (elements (getProp registry ''servers''))))"

text \<open>One list item of the landing page, for a server that is not \<^verbatim>\<open>null\<close>.\<close>

definition serverItem :: "jsval \<Rightarrow> string" where
  \<open>serverItem s =
     (let eId = escapeHtml (getProp s ''id'');
          eName = escapeHtml (getProp s ''name'');
          eVer = escapeHtml (getProp s ''version'')
      in join nl
        [[],
         ''            <li>'',
         ''              <strong><a href="'' @ API_BASE @ ''/servers/'' @ eId @ ''/">'' @ eName @ ''</a></strong> (v'' @ eVer @ '')<br>'',
         ''              <small>'',
         ''                Endpoints: '',
         ''                <a href="'' @ API_BASE @ ''/servers/'' @ eId @ ''/versions/latest/">latest</a> | '',
         ''                <a href="'' @ API_BASE @ ''/servers/'' @ eId @ ''/versions/'' @ eVer @ ''/">v'' @ eVer @ ''</a>'',
         ''              </small>'',
         ''            </li>''])\<close>

definition landingPage :: "string \<Rightarrow> string \<Rightarrow> string \<Rightarrow> string" where
  \<open>landingPage serverCount serversList now = join nl
     [''<!DOCTYPE html>'',
      ''<html lang="en">'',
      ''<head>'',
      ''  <meta charset="UTF-8">'',
      ''  <title>MCP Registry</title>'',
      ''  <style>'',
      ''    body { font-family: system-ui, sans-serif; max-width: 800px; margin: 0 auto; padding: 20px; line-height: 1.6; }'',
      ''    h1 { border-bottom: 3px solid #007bff; padding-bottom: 10px; }'',
      ''    .card { background: #f9f9f9; padding: 20px; border-radius: 8px; margin-bottom: 20px; border: 1px solid #ddd; }'',
      ''    code { background: #eee; padding: 2px 5px; border-radius: 4px; }'',
      ''  </style>'',
      ''</head>'',
      ''<body>'',
      ''  <h1>MCP Private Registry</h1>'',
      ''  '',
      ''  <div class="card">'',
      ''    <p>This is a static MCP registry hosting <strong>'' @ serverCount @ ''</strong> servers.</p>'',
      ''    <p><strong>Base URL for Copilot:</strong> <code>YOUR_PAGES_URL</code></p>'',
      ''  </div>'',
      [],
      ''  <h3>Available Servers</h3>'',
      ''  <ul>'' @ serversList @ ''</ul>'',
      [],
      ''  <hr>'',
      ''  <p><small>Last updated: '' @ now @ ''</small></p>'',
      ''</body>'',
      ''</html>'']\<close>

text \<open>
  \<^verbatim>\<open>generateIndexPage\<close>. A truthy \<^verbatim>\<open>servers\<close> that is not an array has no \<^verbatim>\<open>map\<close>, and a
  \<^verbatim>\<open>null\<close> entry has no \<^verbatim>\<open>id\<close>: both throw before anything is written.
\<close>

definition generateIndexPage :: "(nat \<Rightarrow> string) \<Rightarrow> jsval \<Rightarrow> action" where
  "generateIndexPage clk registry w =
     (if nullish registry then (Some TypeError, w)
      else
        let servers = getProp registry ''servers''
        in if truthy servers \<and> (\<not> isArray servers \<or> list_ex nullish (elements servers))
           then (Some TypeError, w)
           else
             let serverCount = (if truthy servers then int (length (elements servers)) else 0);
                 serversList = (if truthy servers then join nl (map serverItem (elements servers))
                                else ''<li>No servers available</li>'');
                 html = landingPage (toString (JNum serverCount)) serversList (clk (ticks w))
             in (None, writeFileSync (pjoin [OUTPUT_DIR, ''index.html'']) html
                         (w\<lparr>ticks := Suc (ticks w)\<rparr>)))"

text \<open>
  \<^verbatim>\<open>copyStaticFiles\<close>, the same in the three variants: each of the two files is copied
  when it exists.
\<close>

definition copyStatic :: "string \<Rightarrow> action" where
  "copyStatic file w =
     (case map_of (files w) file of
        Some content \<Rightarrow> (None, writeFileSync (pjoin [OUTPUT_DIR, file]) content w)
      | None \<Rightarrow> (None, w))"

definition copyStaticFiles :: action where
  "copyStaticFiles = seqAll (map copyStatic [''.nojekyll'', ''robots.txt''])"

text \<open>The first two statements of \<^verbatim>\<open>main\<close>, the same in the three variants.\<close>

definition cleanOutputDir :: "world \<Rightarrow> world" where
  "cleanOutputDir w =
     ensureDir OUTPUT_DIR (if existsSync OUTPUT_DIR w then rmSync OUTPUT_DIR w else w)"

definition main :: "(nat \<Rightarrow> string) \<Rightarrow> source \<Rightarrow> action" where
  "main clk src w =
     (let w1 = cleanOutputDir w
      in case readRegistry src of
           Inl e \<Rightarrow> (Some e, w1)
         | Inr registry \<Rightarrow>
             seqAll [generateServersEndpoint registry,
                     generateServerDetailEndpoints registry,
                     generateIndexPage clk registry,
                     copyStaticFiles] w1)"

section \<open>The detail envelope (part_000 and part_001)\<close>

text \<open>
  The own enumerable properties an object spread \<^verbatim>\<open>...v\<close> copies: the properties of an
  object, the indexed elements of an array or of a string, nothing for the other values.
\<close>

fun ownProps :: "jsval \<Rightarrow> (string \<times> jsval) list" where
  "ownProps (JObj kvs) = kvs"
| "ownProps (JArr xs) = zip (map digits [0 ..< length xs]) xs"
| "ownProps (JStr s) = zip (map digits [0 ..< length s]) (map (\<lambda>c. JStr [c]) s)"
| "ownProps v = []"

text \<open>
  \<^verbatim>\<open>{ ...init, ...v }\<close>: each copied property overwrites the value of a key that is
  there already, in its place, or is added after the others. (The engine lists
  integer-like keys before the others; that reordering is not modelled.)
\<close>

definition spread :: "(string \<times> jsval) list \<Rightarrow> jsval \<Rightarrow> (string \<times> jsval) list" where
  "spread init v = fold (\<lambda>kv acc. AList.update (fst kv) (snd kv) acc) (ownProps v) init"

definition META_KEY :: string where
  "META_KEY = ''io.modelcontextprotocol.registry/official''"

text \<open>
  \<^verbatim>\<open>wrapServerResponse\<close>, the same in \<^verbatim>\<open>part_000\<close> and \<^verbatim>\<open>part_001\<close>. It reads the
  clock once.
\<close>

definition wrapServerResponse ::
  "(nat \<Rightarrow> string) \<Rightarrow> jsval \<Rightarrow> bool \<Rightarrow> world \<Rightarrow> jsval \<times> world" where
  "wrapServerResponse clk serverData isLatest w =
     (let now = clk (ticks w)
      in (JObj
            [(''server'', JObj (spread [(''$schema'', JStr SCHEMA_URL)] serverData)),
             (''_meta'', JObj
                [(META_KEY, JObj
                    [(''status'', JStr ''active''),
                     (''publishedAt'', JStr now),
                     (''updatedAt'', JStr now),
                     (''isLatest'', JBool isLatest)])])],
          w\<lparr>ticks := Suc (ticks w)\<rparr>))"

section \<open>part_000\<close>

definition generateServersEndpoint_p0 :: "jsval \<Rightarrow> action" where
  "generateServersEndpoint_p0 registry =
     (let apiPath = pjoin [OUTPUT_DIR, API_BASE, ''servers'']
      in seqAll [writeJSON (pjoin [apiPath, ''index.json'']) registry,
                 writeHTML_p0 (pjoin [apiPath, ''index.html'']) registry
                   (JStr ''All MCP Servers'')])"

text \<open>
  The callback of \<^verbatim>\<open>forEach\<close> in \<^verbatim>\<open>generateServerDetailEndpoints\<close> of \<^verbatim>\<open>part_000\<close>:
  the envelope is built once for the version path and once more for the latest path.
\<close>

definition serverDetail_p0 :: "(nat \<Rightarrow> string) \<Rightarrow> jsval \<Rightarrow> action" where
  "serverDetail_p0 clk server =
     (if nullish server then (\<lambda>w. (Some TypeError, w))
      else
        let serverId = getProp server ''id'';
            version = getProp server ''version'';
            name = toString (getProp server ''name'')
        in withPath (path_join [JStr OUTPUT_DIR, JStr API_BASE, JStr ''servers'', serverId,
                                JStr ''versions'', version])
             (\<lambda>versionPath w.
                let (versionData, w1) = wrapServerResponse clk server True w
                in seqAll
                     [writeJSON (pjoin [versionPath, ''index.json'']) versionData,
                      writeHTML_p0 (pjoin [versionPath, ''index.html'']) versionData
                        (JStr (name @ '' v'' @ toString version)),
                      (\<lambda>w2.
                         let latestPath = pjoin [OUTPUT_DIR, API_BASE, ''servers'',
                                                 toString serverId, ''versions'', ''latest''];
                             (latestData, w3) = wrapServerResponse clk server True w2
                         in seqAll
                              [writeJSON (pjoin [latestPath, ''index.json'']) latestData,
                               writeHTML_p0 (pjoin [latestPath, ''index.html'']) latestData
                                 (JStr (name @ '' (Latest)''))] w3)] w1))"

definition generateServerDetailEndpoints_p0 :: "(nat \<Rightarrow> string) \<Rightarrow> jsval \<Rightarrow> action" where
  "generateServerDetailEndpoints_p0 clk registry =
     (if nullish registry then (\<lambda>w. (Some TypeError, w))
      else if \<not> truthy (getProp registry ''servers'') then (\<lambda>w. (None, w))
      else if \<not> isArray (getProp registry ''servers'') then (\<lambda>w. (Some TypeError, w))
      else seqAll (map (serverDetail_p0 clk) (elements (getProp registry ''servers''))))"

text \<open>
  \<^verbatim>\<open>generateIndexPage\<close> of \<^verbatim>\<open>part_000\<close>; it is called with a registry whose \<^verbatim>\<open>servers\<close> is
  an array (any other value ends the run in \<^verbatim>\<open>readRegistry\<close>).
\<close>

definition landingPage_p0 :: "string \<Rightarrow> string" where
  \<open>landingPage_p0 count = join nl
     [''<!DOCTYPE html>'',
      ''<html><body><h1>MCP Registry</h1><p>Running '' @ count @ '' servers.</p></body></html>'']\<close>

text \<open>The \<^verbatim>\<open>length\<close> of an array or of a string; other values have none.\<close>

fun lengthOf :: "jsval \<Rightarrow> jsval" where
  "lengthOf (JArr xs) = JNum (int (length xs))"
| "lengthOf (JStr s) = JNum (int (length s))"
| "lengthOf v = JUndefined"

definition generateIndexPage_p0 :: "jsval \<Rightarrow> action" where
  "generateIndexPage_p0 registry w =
     (if nullish registry \<or> nullish (getProp registry ''servers'') then (Some TypeError, w)
      else (None, writeFileSync (pjoin [OUTPUT_DIR, ''index.html''])
                    (landingPage_p0 (toString (lengthOf (getProp registry ''servers'')))) w))"

definition main_p0 :: "(nat \<Rightarrow> string) \<Rightarrow> source \<Rightarrow> action" where
  "main_p0 clk src w =
     (let w1 = cleanOutputDir w
      in case readRegistry_p0 src of
           Inl e \<Rightarrow> (Some e, w1)
         | Inr registry \<Rightarrow>
             seqAll [generateServersEndpoint_p0 registry,
                     generateServerDetailEndpoints_p0 clk registry,
                     generateIndexPage_p0 registry,
                     copyStaticFiles] w1)"

section \<open>part_001\<close>

text \<open>
  The callback of \<^verbatim>\<open>forEach\<close> in \<^verbatim>\<open>main\<close> of \<^verbatim>\<open>part_001\<close>: one envelope, written at the
  version path and at the latest path.
\<close>

definition serverDetail_p1 :: "(nat \<Rightarrow> string) \<Rightarrow> string \<Rightarrow> jsval \<Rightarrow> action" where
  "serverDetail_p1 clk serversPath server =
     (if nullish server then (\<lambda>w. (Some TypeError, w))
      else
        let serverId = getProp server ''id'';
            version = getProp server ''version''
        in (\<lambda>w.
              let (responseData, w1) = wrapServerResponse clk server True w
              in withPath (path_join [JStr serversPath, serverId, JStr ''versions'', version])
                   (\<lambda>versionPath. seqAll
                      [writeJSON (pjoin [versionPath, ''index.json'']) responseData,
                       (let latestPath = pjoin [serversPath, toString serverId,
                                                ''versions'', ''latest'']
                        in writeJSON (pjoin [latestPath, ''index.json'']) responseData)])
                   w1))"

definition main_p1 :: "(nat \<Rightarrow> string) \<Rightarrow> source \<Rightarrow> action" where
  "main_p1 clk src w =
     (let w1 = cleanOutputDir w
      in case readRegistry_p1 src of
           Inl e \<Rightarrow> (Some e, w1)
         | Inr registry \<Rightarrow>
             (let serversPath = pjoin [OUTPUT_DIR, API_BASE, ''servers'']
              in seqAll
                   [writeJSON (pjoin [serversPath, ''index.json'']) registry,
                    (if nullish registry then (\<lambda>w. (Some TypeError, w))
                     else if truthy (getProp registry ''servers'')
                             \<and> isArray (getProp registry ''servers'')
                       then seqAll (map (serverDetail_p1 clk serversPath)
                                      (elements (getProp registry ''servers'')))
                     else (\<lambda>w. (None, w))),
                    copyStaticFiles] w1))"

section \<open>Reading a page back\<close>

text \<open>
  The specification speaks of un-escaping the entities of the text in the
  \<^verbatim>\<open>pre\<close> block; the scripts have no such function. The two definitions below are
  written from the specification's words: \<open>unescapeHtml\<close> decodes, in one pass from
  left to right, the five entities \<^verbatim>\<open>escapeHtml\<close> produces, and \<open>preBlock\<close> is the text
  between the first \<^verbatim>\<open><pre><code>\<close> of a page and the \<^verbatim>\<open></code></pre>\<close> that follows it.
\<close>

fun unescapeHtml :: "string \<Rightarrow> string" where
  "unescapeHtml [] = []"
| "unescapeHtml (c # cs) =
     (if c = CHR ''&'' \<and> prefix ''amp;'' cs then CHR ''&'' # unescapeHtml (drop 4 cs)
      else if c = CHR ''&'' \<and> prefix ''lt;'' cs then CHR ''<'' # unescapeHtml (drop 3 cs)
      else if c = CHR ''&'' \<and> prefix ''gt;'' cs then CHR ''>'' # unescapeHtml (drop 3 cs)
      else if c = CHR ''&'' \<and> prefix ''quot;'' cs then CHR 0x22 # unescapeHtml (drop 5 cs)
      else if c = CHR ''&'' \<and> prefix ''#039;'' cs then CHR 0x27 # unescapeHtml (drop 5 cs)
      else c # unescapeHtml cs)"

fun afterMarker :: "string \<Rightarrow> string \<Rightarrow> string option" where
  "afterMarker m [] = (if m = [] then Some [] else None)"
| "afterMarker m (c # cs) =
     (if prefix m (c # cs) then Some (drop (length m) (c # cs)) else afterMarker m cs)"

fun beforeMarker :: "string \<Rightarrow> string \<Rightarrow> string option" where
  "beforeMarker m [] = (if m = [] then Some [] else None)"
| "beforeMarker m (c # cs) =
     (if prefix m (c # cs) then Some []
      else map_option (\<lambda>r. c # r) (beforeMarker m cs))"

text \<open>
  A proof device for \<open>afterMarker\<close>: no position of the text starts with the three
  characters \<open>a\<close>, \<open>b\<close>, \<open>c\<close>, and \<open>a\<close> is not among its last two characters.
\<close>

fun noStart :: "char \<Rightarrow> char \<Rightarrow> char \<Rightarrow> string \<Rightarrow> bool" where
  "noStart a b c [] = True"
| "noStart a b c [x] = (x \<noteq> a)"
| "noStart a b c [x, y] = (x \<noteq> a \<and> y \<noteq> a)"
| "noStart a b c (x # y # z # zs) = ((x \<noteq> a \<or> y \<noteq> b \<or> z \<noteq> c) \<and> noStart a b c (y # z # zs))"

definition preBlock :: "string \<Rightarrow> string option" where
  "preBlock html =
     (case afterMarker ''<pre><code>'' html of
        None \<Rightarrow> None
      | Some r \<Rightarrow> beforeMarker ''</code></pre>'' r)"

text \<open>An object without one of its keys.\<close>

definition without :: "string \<Rightarrow> jsval \<Rightarrow> jsval" where
  "without k v = JObj (filter (\<lambda>kv. fst kv \<noteq> k) (ownProps v))"

text \<open>What lies in the output tree: the files and the directories at or below \<^verbatim>\<open>dist\<close>.\<close>

definition outputFiles :: "world \<Rightarrow> (string \<times> string) list" where
  "outputFiles w = filter (\<lambda>(p, c). under OUTPUT_DIR p) (files w)"

definition outputDirs :: "world \<Rightarrow> string list" where
  "outputDirs w = filter (under OUTPUT_DIR) (dirs w)"

text \<open>
  A file system in which something lies below \<^verbatim>\<open>dist\<close> only if \<^verbatim>\<open>dist\<close> itself exists.
\<close>

definition consistent :: "world \<Rightarrow> bool" where
  "consistent w = (existsSync OUTPUT_DIR w \<or> (outputFiles w = [] \<and> outputDirs w = []))"

section \<open>The identifier check\<close>

lemma inRange_set:
  assumes "[of_char lo ..< Suc (of_char hi)] = map of_char cs"
  shows "inRange lo hi c = (c \<in> set cs)"
proof -
  have "inRange lo hi c = ((of_char c :: nat) \<in> set [of_char lo ..< Suc (of_char hi)])"
    unfolding inRange_def set_upt atLeastLessThan_iff less_Suc_eq_le by (rule refl)
  also have "\<dots> = ((of_char c :: nat) \<in> of_char ` set cs)"
    by (simp only: assms set_map)
  also have "\<dots> = (c \<in> set cs)"
    by (rule inj_image_mem_iff [OF inj_of_char])
  finally show ?thesis .
qed

lemma inRange_lower: "inRange CHR ''a'' CHR ''z'' c = (c \<in> set ''abcdefghijklmnopqrstuvwxyz'')"
  by (rule inRange_set) (simp add: upt_rec)

lemma inRange_upper: "inRange CHR ''A'' CHR ''Z'' c = (c \<in> set ''ABCDEFGHIJKLMNOPQRSTUVWXYZ'')"
  by (rule inRange_set) (simp add: upt_rec)

lemma inRange_digit: "inRange CHR ''0'' CHR ''9'' c = (c \<in> set ''0123456789'')"
  by (rule inRange_set) (simp add: upt_rec)

lemma specIdAlphabet_split:
  "specIdAlphabet = set ''ABCDEFGHIJKLMNOPQRSTUVWXYZ'' \<union> set ''abcdefghijklmnopqrstuvwxyz''
                    \<union> set ''0123456789'' \<union> {CHR ''.'', CHR ''-''}"
proof -
  have "''ABCDEFGHIJKLMNOPQRSTUVWXYZabcdefghijklmnopqrstuvwxyz0123456789.-''
        = ''ABCDEFGHIJKLMNOPQRSTUVWXYZ'' @ ''abcdefghijklmnopqrstuvwxyz''
          @ ''0123456789'' @ ''.-''"
    by simp
  then have "specIdAlphabet
        = set (''ABCDEFGHIJKLMNOPQRSTUVWXYZ'' @ ''abcdefghijklmnopqrstuvwxyz''
               @ ''0123456789'' @ ''.-'')"
    by (simp only: specIdAlphabet_def)
  also have "\<dots> = set ''ABCDEFGHIJKLMNOPQRSTUVWXYZ'' \<union> set ''abcdefghijklmnopqrstuvwxyz''
                    \<union> set ''0123456789'' \<union> set ''.-''"
    by (simp only: set_append Un_assoc)
  finally show ?thesis by (simp only: list.set)
qed

lemma idChar_p0_alphabet: "idChar_p0 c = (c \<in> specIdAlphabet)"
  by (simp only: idChar_p0_def specIdAlphabet_split inRange_lower inRange_upper
        inRange_digit Un_iff insert_iff empty_iff) blast

lemma dot_not_alphanumeric:
  "CHR ''.'' \<notin> set ''ABCDEFGHIJKLMNOPQRSTUVWXYZ'' \<union> set ''abcdefghijklmnopqrstuvwxyz''
                 \<union> set ''0123456789''"
  by simp

lemma idChar_alphabet: "idChar c = (c \<in> specIdAlphabet \<and> c \<noteq> CHR ''.'')"
  using dot_not_alphanumeric
  by (simp only: idChar_def specIdAlphabet_split inRange_lower inRange_upper
        inRange_digit Un_iff insert_iff empty_iff) blast

lemma isValidServerId_p0_spec: "isValidServerId_p0 (JStr s) = specIdGrammar s"
  by (auto simp: isValidServerId_p0_def specIdGrammar_def list_all_iff idChar_p0_alphabet)

lemma isValidServerId_spec:
  "isValidServerId (JStr s) = (specIdGrammar s \<and> CHR ''.'' \<notin> set s)"
  by (auto simp: isValidServerId_def specIdGrammar_def list_all_iff idChar_alphabet)

lemma validateEntry_invalid_id:
  assumes "getProp server ''id'' = JStr s" and "s \<noteq> []"
    and "truthy (getProp server ''name'')" and "truthy (getProp server ''version'')"
    and "\<not> isValidServerId (JStr s)"
  shows "validateEntry i server = Some (InvalidIdError s)"
proof -
  have "\<not> nullish server"
    using assms(1) by (cases server) simp_all
  then show ?thesis
    using assms by (simp add: validateEntry_def)
qed

text \<open>
  Claim C1, as stated, fails on \<^verbatim>\<open>generate-registry-endpoints.js\<close>: its class has no dot,
  so an entry whose id is \<^verbatim>\<open>com.example.server\<close>, which the grammar of the specification
  accepts, ends the run with the invalid-id diagnostic.
\<close>

theorem isValidServerId_rejects_dotted_id:
  "specIdGrammar ''com.example.server''
   \<and> readRegistry (Doc (JObj [(''servers'', JArr
        [JObj [(''id'', JStr ''com.example.server''), (''name'', JStr ''Example''),
               (''version'', JStr ''1.0.0'')]])]))
     = Inl (InvalidIdError ''com.example.server'')"
proof -
  have g: "specIdGrammar ''com.example.server''"
    by (simp add: specIdGrammar_def specIdAlphabet_def)
  then have "\<not> isValidServerId (JStr ''com.example.server'')"
    by (simp add: isValidServerId_spec)
  then show ?thesis
    using g by (simp add: readRegistry_def validateEntry_def)
qed

text \<open>
  Claim C1, amended. The validator of \<^verbatim>\<open>part_000\<close> accepts exactly the strings of the
  grammar \<^verbatim>\<open>^[A-Za-z0-9.\-]+$\<close>. The validator of \<^verbatim>\<open>generate-registry-endpoints.js\<close>
  accepts exactly the strings of that grammar that contain no dot; there, an entry
  with a name, a version and a non-empty string id the validator refuses is rejected
  with the invalid-id error that carries the id.
\<close>

theorem isValidServerId_grammar:
  "isValidServerId_p0 (JStr s) = specIdGrammar s
   \<and> isValidServerId (JStr s) = (specIdGrammar s \<and> CHR ''.'' \<notin> set s)
   \<and> (getProp server ''id'' = JStr s \<and> s \<noteq> [] \<and> truthy (getProp server ''name'')
        \<and> truthy (getProp server ''version'') \<and> \<not> (specIdGrammar s \<and> CHR ''.'' \<notin> set s)
      \<longrightarrow> validateEntry i server = Some (InvalidIdError s))"
  using validateEntry_invalid_id [of server s i]
  by (simp add: isValidServerId_p0_spec isValidServerId_spec)

theorem isValidServerId_grammar_witness:
  "isValidServerId_p0 (JStr ''com.example.server'')
   \<and> \<not> isValidServerId_p0 (JStr ''my/server'')
   \<and> \<not> isValidServerId (JStr ''server id'')
   \<and> validateEntry 0 (JObj [(''id'', JStr ''server id''), (''name'', JStr ''S''),
                              (''version'', JStr ''1'')])
       = Some (InvalidIdError ''server id'')"
proof -
  let ?server = "JObj [(''id'', JStr ''server id''), (''name'', JStr ''S''),
                       (''version'', JStr ''1'')]"
  have a: "specIdGrammar ''com.example.server''"
    by (simp add: specIdGrammar_def specIdAlphabet_def)
  have b: "\<not> specIdGrammar ''my/server''"
    by (simp add: specIdGrammar_def specIdAlphabet_def)
  have c: "\<not> specIdGrammar ''server id''"
    by (simp add: specIdGrammar_def specIdAlphabet_def)
  have d: "getProp ?server ''id'' = JStr ''server id'' \<and> ''server id'' \<noteq> []
           \<and> truthy (getProp ?server ''name'') \<and> truthy (getProp ?server ''version'')"
    by simp
  show ?thesis
    using a b c d
      isValidServerId_grammar [of "''com.example.server''" ?server 0]
      isValidServerId_grammar [of "''my/server''" ?server 0]
      isValidServerId_grammar [of "''server id''" ?server 0]
    by blast
qed

section \<open>Escaping\<close>

lemma replaceAll_append: "replaceAll c r (xs @ ys) = replaceAll c r xs @ replaceAll c r ys"
  by (simp add: replaceAll_def)

lemma replaceAll_Cons: "replaceAll c r (x # xs) = (if x = c then r else [x]) @ replaceAll c r xs"
  by (simp add: replaceAll_def)

lemma replaceAll_Nil: "replaceAll c r [] = []"
  by (simp add: replaceAll_def)

lemma escape_chain:
  "replaceAll (CHR 0x27) ''&#039;''
     (replaceAll (CHR 0x22) ''&quot;''
       (replaceAll CHR ''>'' ''&gt;''
         (replaceAll CHR ''<'' ''&lt;''
           (replaceAll CHR ''&'' ''&amp;'' s))))
   = concat (map escapeChar s)"
proof (induction s)
  case Nil
  show ?case by (simp add: replaceAll_Nil)
next
  case (Cons x xs)
  show ?case
    by (simp add: replaceAll_Cons replaceAll_append replaceAll_Nil escapeChar_def Cons.IH)
qed

lemma escapeHtml_string: "escapeHtml (JStr s) = concat (map escapeChar s)"
  by (cases s) (simp_all add: escapeHtml_def escape_chain del: concat.simps list.map)

lemma escapeHtml_append: "escapeHtml (JStr (a @ b)) = escapeHtml (JStr a) @ escapeHtml (JStr b)"
  by (simp add: escapeHtml_string)

lemma escapeHtml_falsy: "\<not> truthy v \<Longrightarrow> escapeHtml v = []"
  by (simp add: escapeHtml_def)

lemma lt_notin_escapeChar: "CHR ''<'' \<notin> set (escapeChar c)"
  by (simp add: escapeChar_def)

lemma lt_notin_escape_string: "CHR ''<'' \<notin> set (escapeHtml (JStr s))"
  by (simp add: escapeHtml_string lt_notin_escapeChar)

lemma unescape_escapeChar: "unescapeHtml (escapeChar c @ rest) = c # unescapeHtml rest"
  by (simp add: escapeChar_def)

lemma unescape_escape: "unescapeHtml (concat (map escapeChar s)) = s"
  by (induction s) (simp_all add: unescape_escapeChar)

lemma unescapeHtml_escapeHtml: "unescapeHtml (escapeHtml (JStr s)) = s"
  by (simp add: escapeHtml_string unescape_escape)

lemma escapeHtml_general:
  "escapeHtml v = (if truthy v then concat (map escapeChar (toString v)) else [])"
  by (simp add: escapeHtml_def escape_chain)

lemma lt_notin_escapeHtml: "CHR ''<'' \<notin> set (escapeHtml v)"
  by (simp add: escapeHtml_general lt_notin_escapeChar)

section \<open>The pre block of a page\<close>

lemma afterMarker_skip:
  "a \<notin> set xs \<Longrightarrow> afterMarker (a # m) (xs @ ys) = afterMarker (a # m) ys"
  by (induction xs) auto

lemma afterMarker_noStart:
  "noStart a b c xs \<Longrightarrow>
   afterMarker (a # b # c # m) (xs @ ys) = afterMarker (a # b # c # m) ys"
  by (induction a b c xs rule: noStart.induct) auto

lemma beforeMarker_skip:
  "a \<notin> set xs \<Longrightarrow>
   beforeMarker (a # m) (xs @ ys)
   = (case beforeMarker (a # m) ys of None \<Rightarrow> None | Some r \<Rightarrow> Some (xs @ r))"
  by (induction xs) (auto split: option.splits)

lemma afterMarker_here: "afterMarker (a # m) ((a # m) @ rest) = Some rest"
  by simp

lemma beforeMarker_here: "beforeMarker (a # m) ((a # m) @ rest) = Some []"
  by simp

lemma preBlock_found:
  assumes "afterMarker ''<pre><code>'' page = Some (body @ ''</code></pre>'' @ rest)"
    and "CHR ''<'' \<notin> set body"
  shows "preBlock page = Some body"
  using assms
  by (simp add: preBlock_def beforeMarker_skip del: afterMarker.simps)

lemma pre_line: "''  <pre><code>'' @ rest = ''  '' @ ''<pre><code>'' @ rest"
  by simp

lemma afterMarker_htmlPage:
  \<open>afterMarker ''<pre><code>'' (htmlPage (escapeHtml title) (escapeHtml text))
   = Some (escapeHtml text @ ''</code></pre>''
           @ (nl @ ''  <hr>'' @ nl
              @ ''  <p><small><a href="/">Back to Registry Home</a></small></p>'' @ nl
              @ ''</body>'' @ nl @ ''</html>''))\<close>
  apply (simp only: htmlPage_def join.simps append_assoc pre_line)
  apply (simp add: afterMarker_noStart afterMarker_skip afterMarker_here lt_notin_escapeHtml nl_def
              del: afterMarker.simps append.simps)
  done

lemma preBlock_htmlPage:
  "preBlock (htmlPage (escapeHtml title) (escapeHtml text)) = Some (escapeHtml text)"
  by (rule preBlock_found [OF afterMarker_htmlPage lt_notin_escapeHtml])

lemma afterMarker_htmlPage_p0:
  \<open>afterMarker ''<pre><code>'' (htmlPage_p0 (escapeHtml title) (escapeHtml text))
   = Some (escapeHtml text @ ''</code></pre>'' @ (nl @ ''</body>'' @ nl @ ''</html>''))\<close>
  apply (simp only: htmlPage_p0_def join.simps append_assoc pre_line)
  apply (simp add: afterMarker_noStart afterMarker_skip afterMarker_here lt_notin_escapeHtml nl_def
              del: afterMarker.simps append.simps)
  done

lemma preBlock_htmlPage_p0:
  "preBlock (htmlPage_p0 (escapeHtml title) (escapeHtml text)) = Some (escapeHtml text)"
  by (rule preBlock_found [OF afterMarker_htmlPage_p0 lt_notin_escapeHtml])

section \<open>What the writers leave behind\<close>

lemma JSON_stringify_defined:
  "data \<noteq> JUndefined \<Longrightarrow> JSON_stringify data = JStr (stringifyAt [] data)"
  by (simp add: JSON_stringify_def)

lemma files_ensureDir: "files (ensureDir d w) = files w"
  by (simp add: ensureDir_def mkdirSync_def)

lemma ticks_ensureDir: "ticks (ensureDir d w) = ticks w"
  by (simp add: ensureDir_def mkdirSync_def)

lemma fst_writeJSON:
  "fst (writeJSON p data w) = (if data = JUndefined then Some TypeError else None)"
  by (simp add: writeJSON_def JSON_stringify_def Let_def)

lemma files_writeJSON:
  "files (snd (writeJSON p data w))
   = (if data = JUndefined then files w else AList.update p (stringifyAt [] data) (files w))"
  by (simp add: writeJSON_def JSON_stringify_def Let_def writeFileSync_def files_ensureDir)

lemma ticks_writeJSON: "ticks (snd (writeJSON p data w)) = ticks w"
  by (simp add: writeJSON_def JSON_stringify_def Let_def writeFileSync_def ticks_ensureDir)

lemma fst_writeHTML: "fst (writeHTML p data title w) = None"
  by (simp add: writeHTML_def Let_def)

lemma files_writeHTML:
  "files (snd (writeHTML p data title w))
   = AList.update p (htmlPage (escapeHtml title) (escapeHtml (JSON_stringify data))) (files w)"
  by (simp add: writeHTML_def Let_def writeFileSync_def files_ensureDir)

lemma ticks_writeHTML: "ticks (snd (writeHTML p data title w)) = ticks w"
  by (simp add: writeHTML_def Let_def writeFileSync_def ticks_ensureDir)

lemma fst_writeHTML_p0: "fst (writeHTML_p0 p data title w) = None"
  by (simp add: writeHTML_p0_def Let_def)

lemma files_writeHTML_p0:
  "files (snd (writeHTML_p0 p data title w))
   = AList.update p (htmlPage_p0 (escapeHtml title) (escapeHtml (JSON_stringify data))) (files w)"
  by (simp add: writeHTML_p0_def Let_def writeFileSync_def files_ensureDir)

lemma ticks_writeHTML_p0: "ticks (snd (writeHTML_p0 p data title w)) = ticks w"
  by (simp add: writeHTML_p0_def Let_def writeFileSync_def ticks_ensureDir)

lemma seqAll_Cons:
  "seqAll (a # as) w = (if fst (a w) = None then seqAll as (snd (a w)) else a w)"
  by (cases "a w") (auto split: option.splits)

lemma seqAll_Nil: "seqAll [] w = (None, w)"
  by simp

declare seqAll.simps [simp del]

lemma map_of_update_same: "map_of (AList.update k v al) k = Some v"
  by (simp add: update_conv')

lemma map_of_update_other: "k' \<noteq> k \<Longrightarrow> map_of (AList.update k v al) k' = map_of al k'"
  by (simp add: update_conv')

text \<open>
  Claim C5. For every document that is rendered (any value but \<^verbatim>\<open>undefined\<close>), written by
  \<^verbatim>\<open>writeJSON\<close> at one path and by \<^verbatim>\<open>writeHTML\<close> at another, from any state of the file
  system and under any title: the JSON file is written, and un-escaping the entities of
  the text in the \<^verbatim>\<open>pre\<close> block of the HTML file gives back the text of the JSON file,
  character for character. This holds for the page of
  \<^verbatim>\<open>generate-registry-endpoints.js\<close> and for the page of \<^verbatim>\<open>part_000\<close>.
\<close>

theorem html_mirror_decodes_to_json:
  assumes "data \<noteq> JUndefined"
  shows "fst (writeJSON jsonPath data w) = None
    \<and> map_of (files (snd (writeJSON jsonPath data w))) jsonPath \<noteq> None
    \<and> map_option unescapeHtml
         (Option.bind (map_of (files (snd (writeHTML htmlPath data title w'))) htmlPath) preBlock)
       = map_of (files (snd (writeJSON jsonPath data w))) jsonPath
    \<and> map_option unescapeHtml
         (Option.bind (map_of (files (snd (writeHTML_p0 htmlPath data title w'))) htmlPath) preBlock)
       = map_of (files (snd (writeJSON jsonPath data w))) jsonPath"
  using assms
  by (simp add: fst_writeJSON files_writeJSON files_writeHTML files_writeHTML_p0
        map_of_update_same JSON_stringify_defined preBlock_htmlPage preBlock_htmlPage_p0
        unescapeHtml_escapeHtml)

theorem html_mirror_decodes_to_json_witness:
  \<open>map_of (files (snd (writeJSON ''dist/v0.1/servers/a/index.json''
            (JObj [(''name'', JStr ''<b> & c'')]) \<lparr>files = [], dirs = [], ticks = 0\<rparr>)))
      ''dist/v0.1/servers/a/index.json''
    = Some (''{'' @ nl @ ''  "name": "<b> & c"'' @ nl @ ''}'')
   \<and> map_option unescapeHtml
         (Option.bind
            (map_of (files (snd (writeHTML ''dist/v0.1/servers/a/index.html''
                       (JObj [(''name'', JStr ''<b> & c'')]) (JStr ''T'')
                       \<lparr>files = [], dirs = [], ticks = 0\<rparr>)))
               ''dist/v0.1/servers/a/index.html'')
            preBlock)
       = Some (''{'' @ nl @ ''  "name": "<b> & c"'' @ nl @ ''}'')\<close>
proof -
  let ?d = \<open>JObj [(''name'', JStr ''<b> & c'')]\<close>
  let ?w = "\<lparr>files = [], dirs = [], ticks = 0\<rparr>"
  have d: "?d \<noteq> JUndefined"
    by simp
  have j: \<open>map_of (files (snd (writeJSON ''dist/v0.1/servers/a/index.json'' ?d ?w)))
             ''dist/v0.1/servers/a/index.json''
           = Some (''{'' @ nl @ ''  "name": "<b> & c"'' @ nl @ ''}'')\<close>
    by (simp add: files_writeJSON map_of_update_same quoteJSONString_def quoteChar_def nl_def)
  show ?thesis
    using j html_mirror_decodes_to_json [OF d, of "''dist/v0.1/servers/a/index.json''" ?w
        "''dist/v0.1/servers/a/index.html''" "JStr ''T''" ?w]
    by simp
qed

section \<open>The detail envelope\<close>

lemma update_fresh: "k \<notin> fst ` set al \<Longrightarrow> AList.update k v al = al @ [(k, v)]"
  by (induction al) auto

lemma fold_update_onto:
  assumes "distinct (map fst kvs)"
    and "fst ` set acc \<inter> fst ` set kvs = {}"
    and "k0 \<notin> fst ` set acc"
  shows "fold (\<lambda>kv a. AList.update (fst kv) (snd kv) a) kvs ((k0, v) # acc)
         = (k0, case map_of kvs k0 of Some x \<Rightarrow> x | None \<Rightarrow> v)
           # acc @ filter (\<lambda>kv. fst kv \<noteq> k0) kvs"
  using assms
proof (induction kvs arbitrary: v acc)
  case Nil
  show ?case by simp
next
  case (Cons kv kvs)
  obtain k x where kv: "kv = (k, x)"
    by (cases kv)
  have d: "distinct (map fst kvs)" and fresh: "k \<notin> fst ` set kvs"
    using Cons.prems(1) by (auto simp: kv)
  show ?case
  proof (cases "k = k0")
    case True
    have none: "map_of kvs k0 = None"
      using fresh True by (simp add: map_of_eq_None_iff)
    have "fst ` set acc \<inter> fst ` set kvs = {}"
      using Cons.prems(2) by auto
    from Cons.IH [OF d this Cons.prems(3), of x] show ?thesis
      by (simp add: kv True none)
  next
    case False
    have k_acc: "k \<notin> fst ` set acc"
      using Cons.prems(2) by (auto simp: kv)
    have disj: "fst ` set (acc @ [(k, x)]) \<inter> fst ` set kvs = {}"
      using Cons.prems(2) fresh by (auto simp: kv)
    have k0_acc: "k0 \<notin> fst ` set (acc @ [(k, x)])"
      using Cons.prems(3) False by auto
    from Cons.IH [OF d disj k0_acc, of v] show ?thesis
      using False by (simp add: kv update_fresh [OF k_acc])
  qed
qed

lemma spread_object:
  assumes "distinct (map fst kvs)"
  shows "spread [(k0, v)] (JObj kvs)
         = (k0, case map_of kvs k0 of Some x \<Rightarrow> x | None \<Rightarrow> v)
           # filter (\<lambda>kv. fst kv \<noteq> k0) kvs"
  using fold_update_onto [OF assms, of "[]" k0 v] by (simp add: spread_def)

lemma server_of_envelope:
  "getProp (fst (wrapServerResponse clk serverData b w)) ''server''
   = JObj (spread [(''$schema'', JStr SCHEMA_URL)] serverData)"
  by (simp add: wrapServerResponse_def Let_def)

lemma filter_absent: "map_of kvs k = None \<Longrightarrow> filter (\<lambda>kv. fst kv \<noteq> k) kvs = kvs"
  by (induction kvs) (auto split: if_splits)

text \<open>
  Claim C9. For every server record (an object with distinct keys), whatever the clock
  and the state: the \<^verbatim>\<open>$schema\<close> of the \<^verbatim>\<open>server\<close> object of the envelope is the record's
  own \<^verbatim>\<open>$schema\<close> when it has one, and the constant schema URL when it has none.
\<close>

theorem envelope_schema_is_own_value:
  assumes "distinct (map fst kvs)"
  shows "getProp (getProp (fst (wrapServerResponse clk (JObj kvs) isLatest w)) ''server'')
           ''$schema''
         = (case map_of kvs ''$schema'' of Some own \<Rightarrow> own | None \<Rightarrow> JStr SCHEMA_URL)"
  by (simp add: server_of_envelope spread_object [OF assms])

theorem envelope_schema_is_own_value_witness:
  "getProp (getProp (fst (wrapServerResponse (\<lambda>n. ''2025-01-01T00:00:00.000Z'')
       (JObj [(''id'', JStr ''a''), (''$schema'', JStr ''urn:own'')]) True
       \<lparr>files = [], dirs = [], ticks = 0\<rparr>)) ''server'') ''$schema'' = JStr ''urn:own''
   \<and> getProp (getProp (fst (wrapServerResponse (\<lambda>n. ''2025-01-01T00:00:00.000Z'')
       (JObj [(''id'', JStr ''a'')]) True
       \<lparr>files = [], dirs = [], ticks = 0\<rparr>)) ''server'') ''$schema'' = JStr SCHEMA_URL"
proof -
  have a: "distinct (map fst [(''id'', JStr ''a''), (''$schema'', JStr ''urn:own'')])"
    by simp
  have b: "distinct (map fst [(''id'', JStr ''a'')])"
    by simp
  show ?thesis
    using envelope_schema_is_own_value [OF a, of "\<lambda>n. ''2025-01-01T00:00:00.000Z''" True
        "\<lparr>files = [], dirs = [], ticks = 0\<rparr>"]
      envelope_schema_is_own_value [OF b, of "\<lambda>n. ''2025-01-01T00:00:00.000Z''" True
        "\<lparr>files = [], dirs = [], ticks = 0\<rparr>"]
    by simp
qed

text \<open>
  Claim C4, as stated, fails for a record that has a \<^verbatim>\<open>$schema\<close> field of its own: the
  \<^verbatim>\<open>server\<close> object of the envelope, with \<^verbatim>\<open>$schema\<close> removed, has lost that field.
\<close>

theorem envelope_roundtrip_loses_own_schema:
  "without ''$schema''
     (getProp (fst (wrapServerResponse (\<lambda>n. ''2025-01-01T00:00:00.000Z'')
        (JObj [(''$schema'', JStr ''urn:own''), (''id'', JStr ''a'')]) True
        \<lparr>files = [], dirs = [], ticks = 0\<rparr>)) ''server'')
   = JObj [(''id'', JStr ''a'')]
   \<and> JObj [(''id'', JStr ''a'')] \<noteq> JObj [(''$schema'', JStr ''urn:own''), (''id'', JStr ''a'')]"
  by (simp add: server_of_envelope spread_def without_def)

text \<open>
  Claim C4, amended. For every server record (an object with distinct keys), the
  \<^verbatim>\<open>server\<close> object of the envelope that is serialised at a detail endpoint, with
  \<^verbatim>\<open>$schema\<close> removed, has exactly the fields of the record other than \<^verbatim>\<open>$schema\<close>, in
  the record's order and with the record's values: a record without a \<^verbatim>\<open>$schema\<close> of
  its own is given back exactly.
\<close>

theorem envelope_roundtrip:
  assumes "distinct (map fst kvs)"
  shows "without ''$schema''
           (getProp (fst (wrapServerResponse clk (JObj kvs) isLatest w)) ''server'')
         = without ''$schema'' (JObj kvs)
    \<and> (map_of kvs ''$schema'' = None \<longrightarrow>
         without ''$schema''
           (getProp (fst (wrapServerResponse clk (JObj kvs) isLatest w)) ''server'')
         = JObj kvs)"
  by (simp add: server_of_envelope spread_object [OF assms] without_def filter_absent)

theorem envelope_roundtrip_witness:
  "without ''$schema''
     (getProp (fst (wrapServerResponse (\<lambda>n. ''2025-01-01T00:00:00.000Z'')
        (JObj [(''id'', JStr ''figma-mcp''), (''name'', JStr ''Figma MCP''),
               (''version'', JStr ''1.0.0'')]) True
        \<lparr>files = [], dirs = [], ticks = 0\<rparr>)) ''server'')
   = JObj [(''id'', JStr ''figma-mcp''), (''name'', JStr ''Figma MCP''),
           (''version'', JStr ''1.0.0'')]"
proof -
  let ?kvs = "[(''id'', JStr ''figma-mcp''), (''name'', JStr ''Figma MCP''),
               (''version'', JStr ''1.0.0'')]"
  have d: "distinct (map fst ?kvs)"
    by simp
  have n: "map_of ?kvs ''$schema'' = None"
    by simp
  show ?thesis
    using envelope_roundtrip [OF d, of "\<lambda>n. ''2025-01-01T00:00:00.000Z''" True
        "\<lparr>files = [], dirs = [], ticks = 0\<rparr>"] n
    by blast
qed

section \<open>The output tree\<close>

lemma snd_writeJSON:
  "data \<noteq> JUndefined \<Longrightarrow>
   snd (writeJSON p data w) = writeFileSync p (stringifyAt [] data) (ensureDir (dirname p) w)"
  by (simp add: writeJSON_def JSON_stringify_def Let_def)

lemma snd_writeHTML:
  "snd (writeHTML p data title w)
   = writeFileSync p (htmlPage (escapeHtml title) (escapeHtml (JSON_stringify data)))
       (ensureDir (dirname p) w)"
  by (simp add: writeHTML_def Let_def)

lemma snd_writeHTML_p0:
  "snd (writeHTML_p0 p data title w)
   = writeFileSync p (htmlPage_p0 (escapeHtml title) (escapeHtml (JSON_stringify data)))
       (ensureDir (dirname p) w)"
  by (simp add: writeHTML_p0_def Let_def)

lemma under_self: "under d d"
  by (simp add: under_def)

lemma existsSync_output:
  "under OUTPUT_DIR d \<Longrightarrow>
   existsSync d w = (d \<in> set (outputDirs w) \<or> d \<in> fst ` set (outputFiles w))"
  by (force simp: existsSync_def outputDirs_def outputFiles_def)

lemma outputFiles_ensureDir: "outputFiles (ensureDir d w) = outputFiles w"
  by (simp add: outputFiles_def files_ensureDir)

lemma set_fold_insert: "set (fold List.insert xs ys) = set xs \<union> set ys"
  by (induction xs arbitrary: ys) auto

lemma outputDirs_ensureDir:
  "set (outputDirs (ensureDir d w))
   = (if existsSync d w then set (outputDirs w)
      else set (outputDirs w) \<union> {p \<in> set (dirChain d). under OUTPUT_DIR p})"
  by (auto simp: outputDirs_def ensureDir_def mkdirSync_def set_fold_insert)









lemma outside_ensureDir: "map_of (files (ensureDir d w)) q = map_of (files w) q"
  by (simp add: files_ensureDir)

lemma outside_writeFileSync:
  "q \<noteq> p \<Longrightarrow> map_of (files (writeFileSync p c w)) q = map_of (files w) q"
  by (simp add: writeFileSync_def update_conv')

lemma ticks_cleanOutputDir: "ticks (cleanOutputDir w) = ticks w"
  by (simp add: cleanOutputDir_def ticks_ensureDir rmSync_def)

lemma dirChain_dist: "dirChain OUTPUT_DIR = [OUTPUT_DIR]"
  by (simp add: dirChain_def OUTPUT_DIR_def)

lemma outputFiles_rmSync: "outputFiles (rmSync OUTPUT_DIR w) = []"
  by (auto simp: outputFiles_def rmSync_def filter_empty_conv)

lemma outputDirs_rmSync: "outputDirs (rmSync OUTPUT_DIR w) = []"
  by (simp add: outputDirs_def rmSync_def filter_empty_conv)

lemma cleanOutputDir_empty:
  assumes "consistent w"
  shows "outputFiles (cleanOutputDir w) = []"
    and "set (outputDirs (cleanOutputDir w)) = {OUTPUT_DIR}"
proof -
  let ?w = "if existsSync OUTPUT_DIR w then rmSync OUTPUT_DIR w else w"
  have e: "outputFiles ?w = [] \<and> outputDirs ?w = []"
    using assms by (auto simp: consistent_def outputFiles_rmSync outputDirs_rmSync)
  then have "\<not> existsSync OUTPUT_DIR ?w"
    by (simp add: existsSync_output [OF under_self] del: if_split)
  then show "outputFiles (cleanOutputDir w) = []"
    and "set (outputDirs (cleanOutputDir w)) = {OUTPUT_DIR}"
    using e
    by (auto simp add: cleanOutputDir_def outputFiles_ensureDir outputDirs_ensureDir
          dirChain_dist under_self simp del: if_split cong: if_cong)
qed

section \<open>Rejection of a registry without a server list\<close>

lemma readRegistry_schema:
  "\<not> nullish registry \<Longrightarrow> \<not> isArray (getProp registry ''servers'') \<Longrightarrow>
   readRegistry (Doc registry) = Inl SchemaError"
  by (simp add: readRegistry_def)

lemma readRegistry_p0_schema:
  "\<not> nullish registry \<Longrightarrow> \<not> isArray (getProp registry ''servers'') \<Longrightarrow>
   readRegistry_p0 (Doc registry) = Inl SchemaError"
  by (simp add: readRegistry_p0_def)

lemma main_stops: "readRegistry src = Inl e \<Longrightarrow> main clk src w = (Some e, cleanOutputDir w)"
  by (simp add: main_def Let_def)

lemma main_p0_stops:
  "readRegistry_p0 src = Inl e \<Longrightarrow> main_p0 clk src w = (Some e, cleanOutputDir w)"
  by (simp add: main_p0_def Let_def)

lemma path_servers: "pjoin [OUTPUT_DIR, API_BASE, ''servers''] = ''dist/v0.1/servers''"
  by (simp add: pjoin_def normalize_path_def OUTPUT_DIR_def API_BASE_def Let_def)

lemma path_listing_json:
  "pjoin [''dist/v0.1/servers'', ''index.json''] = ''dist/v0.1/servers/index.json''"
  by (simp add: pjoin_def normalize_path_def Let_def)

lemma path_listing_html:
  "pjoin [''dist/v0.1/servers'', ''index.html''] = ''dist/v0.1/servers/index.html''"
  by (simp add: pjoin_def normalize_path_def Let_def)

lemma path_landing: "pjoin [OUTPUT_DIR, ''index.html''] = ''dist/index.html''"
  by (simp add: pjoin_def normalize_path_def OUTPUT_DIR_def Let_def)

lemma path_nojekyll: "pjoin [OUTPUT_DIR, ''.nojekyll''] = ''dist/.nojekyll''"
  by (simp add: pjoin_def normalize_path_def OUTPUT_DIR_def Let_def)

lemma path_robots: "pjoin [OUTPUT_DIR, ''robots.txt''] = ''dist/robots.txt''"
  by (simp add: pjoin_def normalize_path_def OUTPUT_DIR_def Let_def)




lemma cleanOutputDir_fresh:
  "cleanOutputDir \<lparr>files = [], dirs = [], ticks = 0\<rparr>
   = \<lparr>files = [], dirs = [''dist''], ticks = 0\<rparr>"
  by (simp add: cleanOutputDir_def ensureDir_def existsSync_def mkdirSync_def dirChain_dist)
     (simp add: OUTPUT_DIR_def)

text \<open>
  Claim C2, as stated, fails on \<^verbatim>\<open>part_001\<close>, whose \<^verbatim>\<open>readRegistry\<close> checks nothing: for the
  document \<^verbatim>\<open>{}\<close>, from an empty file system, the run ends without an error and has
  written the listing file.
\<close>

theorem main_p1_writes_listing_without_servers:
  "fst (main_p1 (\<lambda>n. ''2025-01-01T00:00:00.000Z'') (Doc (JObj []))
          \<lparr>files = [], dirs = [], ticks = 0\<rparr>) = None
   \<and> files (snd (main_p1 (\<lambda>n. ''2025-01-01T00:00:00.000Z'') (Doc (JObj []))
          \<lparr>files = [], dirs = [], ticks = 0\<rparr>))
     = [(''dist/v0.1/servers/index.json'', ''{}'')]"
  by (simp add: main_p1_def readRegistry_p1_def Let_def path_servers path_listing_json
        seqAll_Cons seqAll_Nil fst_writeJSON files_writeJSON cleanOutputDir_fresh
        copyStaticFiles_def copyStatic_def)

text \<open>
  Claim C2, amended. In \<^verbatim>\<open>generate-registry-endpoints.js\<close> and in \<^verbatim>\<open>part_000\<close>, for every
  parsed document other than \<^verbatim>\<open>null\<close> whose \<^verbatim>\<open>servers\<close> is absent, \<^verbatim>\<open>null\<close> or anything else
  that is not an array, and from every consistent file system, the run ends with the
  schema error in the state \<^verbatim>\<open>main\<close> reached before reading the registry: no file lies
  in the output tree, whose only directory is \<^verbatim>\<open>dist\<close> itself.
\<close>

theorem schema_rejection_writes_nothing:
  assumes "consistent w" and "\<not> nullish registry"
    and "\<not> isArray (getProp registry ''servers'')"
  shows "main clk (Doc registry) w = (Some SchemaError, cleanOutputDir w)
    \<and> main_p0 clk (Doc registry) w = (Some SchemaError, cleanOutputDir w)
    \<and> outputFiles (cleanOutputDir w) = []
    \<and> set (outputDirs (cleanOutputDir w)) = {OUTPUT_DIR}"
  using assms
  by (simp add: main_stops readRegistry_schema main_p0_stops readRegistry_p0_schema
        cleanOutputDir_empty)

theorem schema_rejection_writes_nothing_witness:
  "main (\<lambda>n. ''2025-01-01T00:00:00.000Z'') (Doc (JObj [(''servers'', JNull)]))
     \<lparr>files = [(''robots.txt'', ''User-agent: *''), (''dist/index.html'', ''old'')],
      dirs = [''dist''], ticks = 0\<rparr>
   = (Some SchemaError,
      cleanOutputDir
        \<lparr>files = [(''robots.txt'', ''User-agent: *''), (''dist/index.html'', ''old'')],
         dirs = [''dist''], ticks = 0\<rparr>)
   \<and> outputFiles (cleanOutputDir
        \<lparr>files = [(''robots.txt'', ''User-agent: *''), (''dist/index.html'', ''old'')],
         dirs = [''dist''], ticks = 0\<rparr>) = []
   \<and> files (cleanOutputDir
        \<lparr>files = [(''robots.txt'', ''User-agent: *''), (''dist/index.html'', ''old'')],
         dirs = [''dist''], ticks = 0\<rparr>) = [(''robots.txt'', ''User-agent: *'')]"
proof -
  let ?w = "\<lparr>files = [(''robots.txt'', ''User-agent: *''), (''dist/index.html'', ''old'')],
             dirs = [''dist''], ticks = 0\<rparr>"
  let ?r = "JObj [(''servers'', JNull)]"
  have c: "consistent ?w"
    by (simp add: consistent_def existsSync_def OUTPUT_DIR_def)
  have n: "\<not> nullish ?r" and a: "\<not> isArray (getProp ?r ''servers'')"
    by simp_all
  have f: "files (cleanOutputDir ?w) = [(''robots.txt'', ''User-agent: *'')]"
    by (simp add: cleanOutputDir_def files_ensureDir existsSync_def OUTPUT_DIR_def rmSync_def
          under_def)
  show ?thesis
    using schema_rejection_writes_nothing [OF c n a, of "\<lambda>n. ''2025-01-01T00:00:00.000Z''"] f
    by simp
qed

section \<open>The empty registry\<close>








section \<open>The latest alias\<close>

lemma fst_wrapServerResponse:
  "fst (wrapServerResponse clk serverData isLatest w)
   = JObj [(''server'', JObj (spread [(''$schema'', JStr SCHEMA_URL)] serverData)),
           (''_meta'', JObj
              [(META_KEY, JObj
                  [(''status'', JStr ''active''),
                   (''publishedAt'', JStr (clk (ticks w))),
                   (''updatedAt'', JStr (clk (ticks w))),
                   (''isLatest'', JBool isLatest)])])]"
  by (simp add: wrapServerResponse_def Let_def)

lemma snd_wrapServerResponse:
  "snd (wrapServerResponse clk serverData isLatest w) = w\<lparr>ticks := Suc (ticks w)\<rparr>"
  by (simp add: wrapServerResponse_def Let_def)

lemma files_ticks_update: "files (w\<lparr>ticks := n\<rparr>) = files w"
  by simp

lemma serverDetail_p0_result:
  assumes "getProp server ''id'' = JStr i" and "getProp server ''version'' = JStr v"
  shows "fst (serverDetail_p0 clk server w) = None"
    and "files (snd (serverDetail_p0 clk server w))
         = AList.update
             (pjoin [pjoin [OUTPUT_DIR, API_BASE, ''servers'', i, ''versions'', ''latest''],
                     ''index.html''])
             (htmlPage_p0
                (escapeHtml (JStr (toString (getProp server ''name'') @ '' (Latest)'')))
                (escapeHtml (JStr (stringifyAt []
                   (fst (wrapServerResponse clk server True (w\<lparr>ticks := Suc (ticks w)\<rparr>)))))))
           (AList.update
             (pjoin [pjoin [OUTPUT_DIR, API_BASE, ''servers'', i, ''versions'', ''latest''],
                     ''index.json''])
             (stringifyAt []
                (fst (wrapServerResponse clk server True (w\<lparr>ticks := Suc (ticks w)\<rparr>))))
           (AList.update
             (pjoin [pjoin [OUTPUT_DIR, API_BASE, ''servers'', i, ''versions'', v],
                     ''index.html''])
             (htmlPage_p0
                (escapeHtml (JStr (toString (getProp server ''name'') @ '' v'' @ v)))
                (escapeHtml (JStr (stringifyAt [] (fst (wrapServerResponse clk server True w))))))
           (AList.update
             (pjoin [pjoin [OUTPUT_DIR, API_BASE, ''servers'', i, ''versions'', v],
                     ''index.json''])
             (stringifyAt [] (fst (wrapServerResponse clk server True w)))
             (files w))))"
    and "ticks (snd (serverDetail_p0 clk server w)) = Suc (Suc (ticks w))"
proof -
  have n: "\<not> nullish server"
    using assms(1) by (cases server) simp_all
  show "fst (serverDetail_p0 clk server w) = None"
    using n
    by (simp add: serverDetail_p0_def assms Let_def withPath_def path_join_def split_beta
          seqAll_Cons seqAll_Nil fst_writeJSON fst_writeHTML_p0 fst_wrapServerResponse)
  show "ticks (snd (serverDetail_p0 clk server w)) = Suc (Suc (ticks w))"
    using n
    by (simp add: serverDetail_p0_def assms Let_def withPath_def path_join_def split_beta
          seqAll_Cons seqAll_Nil fst_writeJSON fst_writeHTML_p0 fst_wrapServerResponse
          snd_wrapServerResponse ticks_writeJSON ticks_writeHTML_p0)
  show "files (snd (serverDetail_p0 clk server w)) = AList.update
             (pjoin [pjoin [OUTPUT_DIR, API_BASE, ''servers'', i, ''versions'', ''latest''],
                     ''index.html''])
             (htmlPage_p0
                (escapeHtml (JStr (toString (getProp server ''name'') @ '' (Latest)'')))
                (escapeHtml (JStr (stringifyAt []
                   (fst (wrapServerResponse clk server True (w\<lparr>ticks := Suc (ticks w)\<rparr>)))))))
           (AList.update
             (pjoin [pjoin [OUTPUT_DIR, API_BASE, ''servers'', i, ''versions'', ''latest''],
                     ''index.json''])
             (stringifyAt []
                (fst (wrapServerResponse clk server True (w\<lparr>ticks := Suc (ticks w)\<rparr>))))
           (AList.update
             (pjoin [pjoin [OUTPUT_DIR, API_BASE, ''servers'', i, ''versions'', v],
                     ''index.html''])
             (htmlPage_p0
                (escapeHtml (JStr (toString (getProp server ''name'') @ '' v'' @ v)))
                (escapeHtml (JStr (stringifyAt [] (fst (wrapServerResponse clk server True w))))))
           (AList.update
             (pjoin [pjoin [OUTPUT_DIR, API_BASE, ''servers'', i, ''versions'', v],
                     ''index.json''])
             (stringifyAt [] (fst (wrapServerResponse clk server True w)))
             (files w))))"
    using n
    by (simp add: serverDetail_p0_def assms Let_def withPath_def path_join_def split_beta
          seqAll_Cons seqAll_Nil fst_writeJSON fst_writeHTML_p0 fst_wrapServerResponse
          snd_wrapServerResponse ticks_writeJSON ticks_writeHTML_p0 files_writeJSON
          files_writeHTML_p0 JSON_stringify_def
          del: stringifyAt.simps)
qed

lemma generateServersEndpoint_p0_result:
  assumes "registry \<noteq> JUndefined"
  shows "fst (generateServersEndpoint_p0 registry w) = None"
    and "files (snd (generateServersEndpoint_p0 registry w))
         = AList.update (pjoin [pjoin [OUTPUT_DIR, API_BASE, ''servers''], ''index.html''])
             (htmlPage_p0 (escapeHtml (JStr ''All MCP Servers''))
                (escapeHtml (JStr (stringifyAt [] registry))))
           (AList.update (pjoin [pjoin [OUTPUT_DIR, API_BASE, ''servers''], ''index.json''])
             (stringifyAt [] registry) (files w))"
    and "ticks (snd (generateServersEndpoint_p0 registry w)) = ticks w"
  using assms
  by (simp_all add: generateServersEndpoint_p0_def Let_def seqAll_Cons seqAll_Nil
        fst_writeJSON fst_writeHTML_p0 files_writeJSON files_writeHTML_p0 ticks_writeJSON
        ticks_writeHTML_p0 JSON_stringify_def del: stringifyAt.simps)

lemma generateIndexPage_p0_result:
  assumes "\<not> nullish registry" and "\<not> nullish (getProp registry ''servers'')"
  shows "fst (generateIndexPage_p0 registry w) = None"
    and "files (snd (generateIndexPage_p0 registry w))
         = AList.update (pjoin [OUTPUT_DIR, ''index.html''])
             (landingPage_p0 (toString (lengthOf (getProp registry ''servers'')))) (files w)"
  using assms by (simp_all add: generateIndexPage_p0_def writeFileSync_def)

lemma copyStaticFiles_result:
  "fst (copyStaticFiles w) = None"
  "q \<noteq> ''dist/.nojekyll'' \<Longrightarrow> q \<noteq> ''dist/robots.txt'' \<Longrightarrow>
   map_of (files (snd (copyStaticFiles w))) q = map_of (files w) q"
  by (simp_all add: copyStaticFiles_def copyStatic_def seqAll_Cons seqAll_Nil path_nojekyll
        path_robots writeFileSync_def update_conv' split: option.splits)

lemma main_p0_one_server:
  assumes "\<not> nullish registry" and "getProp registry ''servers'' = JArr [server]"
    and "getProp server ''id'' = JStr i" and "getProp server ''version'' = JStr v"
  shows "fst (main_p0 clk (Doc registry) w) = None"
    and "q \<noteq> ''dist/.nojekyll'' \<Longrightarrow> q \<noteq> ''dist/robots.txt'' \<Longrightarrow>
         map_of (files (snd (main_p0 clk (Doc registry) w))) q
         = map_of
             (AList.update (pjoin [OUTPUT_DIR, ''index.html''])
                (landingPage_p0 (toString (lengthOf (getProp registry ''servers''))))
                (files (snd (serverDetail_p0 clk server
                   (snd (generateServersEndpoint_p0 registry (cleanOutputDir w))))))) q"
proof -
  have u: "registry \<noteq> JUndefined"
    using assms(1) by auto
  have read: "readRegistry_p0 (Doc registry) = Inr registry"
    using assms(1,2) by (simp add: readRegistry_p0_def)
  have det: "generateServerDetailEndpoints_p0 clk registry = seqAll [serverDetail_p0 clk server]"
    using assms(1,2) by (simp add: generateServerDetailEndpoints_p0_def)
  have nn: "\<not> nullish (getProp registry ''servers'')"
    by (simp add: assms(2))
  show "fst (main_p0 clk (Doc registry) w) = None"
    by (simp add: main_p0_def read Let_def det seqAll_Cons seqAll_Nil
          generateServersEndpoint_p0_result(1) [OF u]
          serverDetail_p0_result(1) [OF assms(3,4)]
          generateIndexPage_p0_result(1) [OF assms(1) nn] copyStaticFiles_result(1))
  show "map_of (files (snd (main_p0 clk (Doc registry) w))) q
         = map_of
             (AList.update (pjoin [OUTPUT_DIR, ''index.html''])
                (landingPage_p0 (toString (lengthOf (getProp registry ''servers''))))
                (files (snd (serverDetail_p0 clk server
                   (snd (generateServersEndpoint_p0 registry (cleanOutputDir w))))))) q"
    if "q \<noteq> ''dist/.nojekyll''" "q \<noteq> ''dist/robots.txt''"
    by (simp add: main_p0_def read Let_def det seqAll_Cons seqAll_Nil
          generateServersEndpoint_p0_result(1) [OF u]
          serverDetail_p0_result(1) [OF assms(3,4)]
          generateIndexPage_p0_result [OF assms(1) nn] copyStaticFiles_result(1)
          copyStaticFiles_result(2) [OF that])
qed

lemma path_version_a1:
  "pjoin [OUTPUT_DIR, API_BASE, ''servers'', ''a'', ''versions'', ''1'']
   = ''dist/v0.1/servers/a/versions/1''"
  by (simp add: pjoin_def normalize_path_def OUTPUT_DIR_def API_BASE_def Let_def)

lemma path_latest_a:
  "pjoin [OUTPUT_DIR, API_BASE, ''servers'', ''a'', ''versions'', ''latest'']
   = ''dist/v0.1/servers/a/versions/latest''"
  by (simp add: pjoin_def normalize_path_def OUTPUT_DIR_def API_BASE_def Let_def)

lemma path_version_a1_json:
  "pjoin [''dist/v0.1/servers/a/versions/1'', ''index.json'']
   = ''dist/v0.1/servers/a/versions/1/index.json''"
  by (simp add: pjoin_def normalize_path_def Let_def)

lemma path_version_a1_html:
  "pjoin [''dist/v0.1/servers/a/versions/1'', ''index.html'']
   = ''dist/v0.1/servers/a/versions/1/index.html''"
  by (simp add: pjoin_def normalize_path_def Let_def)

lemma path_latest_a_json:
  "pjoin [''dist/v0.1/servers/a/versions/latest'', ''index.json'']
   = ''dist/v0.1/servers/a/versions/latest/index.json''"
  by (simp add: pjoin_def normalize_path_def Let_def)

lemma path_latest_a_html:
  "pjoin [''dist/v0.1/servers/a/versions/latest'', ''index.html'']
   = ''dist/v0.1/servers/a/versions/latest/index.html''"
  by (simp add: pjoin_def normalize_path_def Let_def)

lemmas paths_a1 = path_servers path_listing_json path_listing_html path_landing
  path_version_a1 path_latest_a path_version_a1_json path_version_a1_html
  path_latest_a_json path_latest_a_html

text \<open>
  Claim C3 on \<^verbatim>\<open>part_000\<close>, at a registry with the one server
  \<^verbatim>\<open>{id: "a", name: "A", version: "1"}\<close>, from an empty file system, under a clock
  that advances by a millisecond between its first and its second reading: the run ends
  without an error, the document at the version endpoint carries the first reading and
  the document at the latest endpoint the second, and the two files differ.
\<close>

theorem latest_alias_differs_when_clock_advances:
  "fst (main_p0
     (\<lambda>n. if n = 0 then ''2025-01-01T00:00:00.000Z'' else ''2025-01-01T00:00:00.001Z'')
     (Doc (JObj [(''servers'', JArr
        [JObj [(''id'', JStr ''a''), (''name'', JStr ''A''), (''version'', JStr ''1'')]])]))
     \<lparr>files = [], dirs = [], ticks = 0\<rparr>) = None
   \<and> map_of (files (snd (main_p0
     (\<lambda>n. if n = 0 then ''2025-01-01T00:00:00.000Z'' else ''2025-01-01T00:00:00.001Z'')
     (Doc (JObj [(''servers'', JArr
        [JObj [(''id'', JStr ''a''), (''name'', JStr ''A''), (''version'', JStr ''1'')]])]))
     \<lparr>files = [], dirs = [], ticks = 0\<rparr>))) ''dist/v0.1/servers/a/versions/1/index.json''
     = Some (stringifyAt []
        (JObj [(''server'', JObj [(''$schema'', JStr SCHEMA_URL), (''id'', JStr ''a''),
                                  (''name'', JStr ''A''), (''version'', JStr ''1'')]),
               (''_meta'', JObj [(''io.modelcontextprotocol.registry/official'', JObj
                  [(''status'', JStr ''active''),
                   (''publishedAt'', JStr ''2025-01-01T00:00:00.000Z''),
                   (''updatedAt'', JStr ''2025-01-01T00:00:00.000Z''),
                   (''isLatest'', JBool True)])])]))
   \<and> map_of (files (snd (main_p0
     (\<lambda>n. if n = 0 then ''2025-01-01T00:00:00.000Z'' else ''2025-01-01T00:00:00.001Z'')
     (Doc (JObj [(''servers'', JArr
        [JObj [(''id'', JStr ''a''), (''name'', JStr ''A''), (''version'', JStr ''1'')]])]))
     \<lparr>files = [], dirs = [], ticks = 0\<rparr>))) ''dist/v0.1/servers/a/versions/latest/index.json''
     = Some (stringifyAt []
        (JObj [(''server'', JObj [(''$schema'', JStr SCHEMA_URL), (''id'', JStr ''a''),
                                  (''name'', JStr ''A''), (''version'', JStr ''1'')]),
               (''_meta'', JObj [(''io.modelcontextprotocol.registry/official'', JObj
                  [(''status'', JStr ''active''),
                   (''publishedAt'', JStr ''2025-01-01T00:00:00.001Z''),
                   (''updatedAt'', JStr ''2025-01-01T00:00:00.001Z''),
                   (''isLatest'', JBool True)])])]))
   \<and> map_of (files (snd (main_p0
     (\<lambda>n. if n = 0 then ''2025-01-01T00:00:00.000Z'' else ''2025-01-01T00:00:00.001Z'')
     (Doc (JObj [(''servers'', JArr
        [JObj [(''id'', JStr ''a''), (''name'', JStr ''A''), (''version'', JStr ''1'')]])]))
     \<lparr>files = [], dirs = [], ticks = 0\<rparr>))) ''dist/v0.1/servers/a/versions/1/index.json''
     \<noteq> map_of (files (snd (main_p0
     (\<lambda>n. if n = 0 then ''2025-01-01T00:00:00.000Z'' else ''2025-01-01T00:00:00.001Z'')
     (Doc (JObj [(''servers'', JArr
        [JObj [(''id'', JStr ''a''), (''name'', JStr ''A''), (''version'', JStr ''1'')]])]))
     \<lparr>files = [], dirs = [], ticks = 0\<rparr>))) ''dist/v0.1/servers/a/versions/latest/index.json''"
proof -
  let ?clk = "\<lambda>n::nat. if n = 0 then ''2025-01-01T00:00:00.000Z'' else ''2025-01-01T00:00:00.001Z''"
  let ?s = "JObj [(''id'', JStr ''a''), (''name'', JStr ''A''), (''version'', JStr ''1'')]"
  let ?reg = "JObj [(''servers'', JArr [?s])]"
  let ?w = "\<lparr>files = [], dirs = [], ticks = 0\<rparr>"
  let ?doc = "\<lambda>t. JObj [(''server'', JObj [(''$schema'', JStr SCHEMA_URL), (''id'', JStr ''a''),
                                  (''name'', JStr ''A''), (''version'', JStr ''1'')]),
               (''_meta'', JObj [(''io.modelcontextprotocol.registry/official'', JObj
                  [(''status'', JStr ''active''), (''publishedAt'', JStr t),
                   (''updatedAt'', JStr t), (''isLatest'', JBool True)])])]"
  define w2 where "w2 = snd (generateServersEndpoint_p0 ?reg (cleanOutputDir ?w))"
  have a: "\<not> nullish ?reg" "getProp ?reg ''servers'' = JArr [?s]"
    "getProp ?s ''id'' = JStr ''a''" "getProp ?s ''version'' = JStr ''1''"
    by simp_all
  have u: "?reg \<noteq> JUndefined"
    by simp
  have t2: "ticks w2 = 0"
    by (simp add: w2_def generateServersEndpoint_p0_result(3) [OF u] ticks_cleanOutputDir)
  have d1: "fst (wrapServerResponse ?clk ?s True w2) = ?doc ''2025-01-01T00:00:00.000Z''"
    by (simp add: fst_wrapServerResponse spread_def t2 META_KEY_def)
  have d2: "fst (wrapServerResponse ?clk ?s True (w2\<lparr>ticks := Suc (ticks w2)\<rparr>))
            = ?doc ''2025-01-01T00:00:00.001Z''"
    by (simp add: fst_wrapServerResponse spread_def t2 META_KEY_def)
  have ok: "fst (main_p0 ?clk (Doc ?reg) ?w) = None"
    by (rule main_p0_one_server(1) [OF a])
  have v: "map_of (files (snd (main_p0 ?clk (Doc ?reg) ?w)))
             ''dist/v0.1/servers/a/versions/1/index.json''
           = Some (stringifyAt [] (?doc ''2025-01-01T00:00:00.000Z''))"
    by (simp add: main_p0_one_server(2) [OF a] serverDetail_p0_result(2) [OF a(3,4)]
          w2_def [symmetric] d1 d2 paths_a1 update_conv' del: stringifyAt.simps)
  have l: "map_of (files (snd (main_p0 ?clk (Doc ?reg) ?w)))
             ''dist/v0.1/servers/a/versions/latest/index.json''
           = Some (stringifyAt [] (?doc ''2025-01-01T00:00:00.001Z''))"
    by (simp add: main_p0_one_server(2) [OF a] serverDetail_p0_result(2) [OF a(3,4)]
          w2_def [symmetric] d1 d2 paths_a1 update_conv' del: stringifyAt.simps)
  have ne: "stringifyAt [] (?doc ''2025-01-01T00:00:00.000Z'')
            \<noteq> stringifyAt [] (?doc ''2025-01-01T00:00:00.001Z'')"
    by (simp add: quoteJSONString_def quoteChar_def nl_def SCHEMA_URL_def)
  show ?thesis
    using ok v l ne by (simp del: stringifyAt.simps)
qed

section \<open>The scan of the server entries\<close>

lemma validateEntry_None_index: "validateEntry i x = None \<Longrightarrow> validateEntry j x = None"
  by (simp add: validateEntry_def split: if_splits)

lemma validateEntries_append:
  "list_all (\<lambda>x. validateEntry 0 x = None) pre \<Longrightarrow>
   validateEntries i (pre @ rest) = validateEntries (i + length pre) rest"
proof (induction pre arbitrary: i)
  case Nil
  show ?case by simp
next
  case (Cons x pre)
  have "validateEntry i x = None"
    using Cons.prems by (auto intro: validateEntry_None_index)
  then show ?case
    using Cons.prems Cons.IH [of "Suc i"] by simp
qed

lemma validateEntries_first:
  "validateEntries i xs = Some e \<Longrightarrow>
   \<exists>pre s post. xs = pre @ s # post \<and> list_all (\<lambda>x. validateEntry 0 x = None) pre
     \<and> validateEntry (i + length pre) s = Some e"
proof (induction xs arbitrary: i)
  case Nil
  then show ?case by simp
next
  case (Cons x xs)
  show ?case
  proof (cases "validateEntry i x")
    case None
    then have "validateEntries (Suc i) xs = Some e"
      using Cons.prems by simp
    from Cons.IH [OF this] obtain pre s post where
      p: "xs = pre @ s # post" "list_all (\<lambda>x. validateEntry 0 x = None) pre"
        "validateEntry (Suc i + length pre) s = Some e"
      by blast
    have "x # xs = (x # pre) @ s # post"
      "list_all (\<lambda>x. validateEntry 0 x = None) (x # pre)"
      "validateEntry (i + length (x # pre)) s = Some e"
      using p None by (auto intro: validateEntry_None_index)
    then show ?thesis by blast
  next
    case (Some e')
    then have "x # xs = [] @ x # xs" "list_all (\<lambda>x. validateEntry 0 x = None) []"
      "validateEntry (i + length ([] :: jsval list)) x = Some e"
      using Cons.prems by simp_all
    then show ?thesis by blast
  qed
qed

lemma validateEntry_fields_present:
  "\<not> nullish x \<Longrightarrow> truthy (getProp x ''id'') \<Longrightarrow> truthy (getProp x ''name'') \<Longrightarrow>
   truthy (getProp x ''version'') \<Longrightarrow> validateEntry i x \<noteq> Some (MissingFieldError j)"
  by (simp add: validateEntry_def)

lemma validateEntries_no_missing:
  "list_all (\<lambda>x. \<not> nullish x \<and> truthy (getProp x ''id'') \<and> truthy (getProp x ''name'')
                  \<and> truthy (getProp x ''version'')) xs \<Longrightarrow>
   validateEntries i xs \<noteq> Some (MissingFieldError j)"
proof (induction xs arbitrary: i)
  case Nil
  show ?case by simp
next
  case (Cons x xs)
  then show ?case
    using validateEntry_fields_present [of x i j]
    by (cases "validateEntry i x") auto
qed

lemma readRegistry_entries:
  "\<not> nullish registry \<Longrightarrow> getProp registry ''servers'' = JArr xs \<Longrightarrow>
   readRegistry (Doc registry)
   = (case validateEntries 0 xs of Some e \<Rightarrow> Inl e | None \<Rightarrow> Inr registry)"
  by (simp add: readRegistry_def)

text \<open>
  Claim C7, as stated, fails when an entry before the first one with a missing field
  breaks the identifier rule: the scan ends there, with the invalid-id error, and no
  missing-field error is raised for the entry at index 1, which has no version.
\<close>

theorem earlier_invalid_id_preempts_missing_field:
  "readRegistry (Doc (JObj [(''servers'', JArr
      [JObj [(''id'', JStr ''a/b''), (''name'', JStr ''A''), (''version'', JStr ''1'')],
       JObj [(''id'', JStr ''x''), (''name'', JStr ''X'')]])]))
   = Inl (InvalidIdError ''a/b'')
   \<and> readRegistry (Doc (JObj [(''servers'', JArr
      [JObj [(''id'', JStr ''a/b''), (''name'', JStr ''A''), (''version'', JStr ''1'')],
       JObj [(''id'', JStr ''x''), (''name'', JStr ''X'')]])]))
     \<noteq> Inl (MissingFieldError 1)"
proof -
  have "\<not> isValidServerId (JStr ''a/b'')"
    by (simp add: isValidServerId_spec specIdGrammar_def specIdAlphabet_def)
  then show ?thesis
    by (simp add: readRegistry_def validateEntry_def)
qed

text \<open>
  Claim C7, amended. \<^verbatim>\<open>readRegistry\<close> of \<^verbatim>\<open>generate-registry-endpoints.js\<close> scans the
  entries from left to right and ends at the first entry that fails either check, with
  that entry's error. So, for a registry whose \<^verbatim>\<open>servers\<close> is an array: when every entry
  before a given one passes both checks and that entry, not \<^verbatim>\<open>null\<close>, has a falsy or absent
  \<^verbatim>\<open>id\<close>, \<^verbatim>\<open>name\<close> or \<^verbatim>\<open>version\<close>, the run ends with the missing-field error naming its
  index, whatever follows it; when every entry has the three fields truthy, no
  missing-field error is raised; and every error of the scan is the error of an entry
  before which all entries pass.
\<close>

theorem validation_stops_at_first_violation:
  "(\<not> nullish registry \<and> getProp registry ''servers'' = JArr (pre @ s # post)
      \<and> list_all (\<lambda>x. validateEntry 0 x = None) pre \<and> \<not> nullish s
      \<and> (\<not> truthy (getProp s ''id'') \<or> \<not> truthy (getProp s ''name'')
           \<or> \<not> truthy (getProp s ''version''))
    \<longrightarrow> readRegistry (Doc registry) = Inl (MissingFieldError (length pre)))
   \<and> (\<not> nullish registry \<and> getProp registry ''servers'' = JArr xs
      \<and> list_all (\<lambda>x. \<not> nullish x \<and> truthy (getProp x ''id'') \<and> truthy (getProp x ''name'')
                       \<and> truthy (getProp x ''version'')) xs
    \<longrightarrow> readRegistry (Doc registry) \<noteq> Inl (MissingFieldError j))
   \<and> (\<not> nullish registry \<and> getProp registry ''servers'' = JArr xs
      \<and> readRegistry (Doc registry) = Inl e
    \<longrightarrow> (\<exists>before entry after. xs = before @ entry # after
          \<and> list_all (\<lambda>x. validateEntry 0 x = None) before
          \<and> validateEntry (length before) entry = Some e))"
proof -
  have a: "readRegistry (Doc registry) = Inl (MissingFieldError (length pre))"
    if "\<not> nullish registry" "getProp registry ''servers'' = JArr (pre @ s # post)"
      "list_all (\<lambda>x. validateEntry 0 x = None) pre" "\<not> nullish s"
      "\<not> truthy (getProp s ''id'') \<or> \<not> truthy (getProp s ''name'')
         \<or> \<not> truthy (getProp s ''version'')"
  proof -
    have "validateEntry (length pre) s = Some (MissingFieldError (length pre))"
      using that(4,5) by (auto simp: validateEntry_def)
    then have "validateEntries 0 (pre @ s # post) = Some (MissingFieldError (length pre))"
      by (simp add: validateEntries_append [OF that(3)])
    then show ?thesis
      by (simp add: readRegistry_entries [OF that(1,2)])
  qed
  have b: "readRegistry (Doc registry) \<noteq> Inl (MissingFieldError j)"
    if "\<not> nullish registry" "getProp registry ''servers'' = JArr xs"
      "list_all (\<lambda>x. \<not> nullish x \<and> truthy (getProp x ''id'') \<and> truthy (getProp x ''name'')
                      \<and> truthy (getProp x ''version'')) xs"
    using validateEntries_no_missing [OF that(3), of 0 j]
    by (auto simp: readRegistry_entries [OF that(1,2)] split: option.splits)
  have c: "\<exists>before entry after. xs = before @ entry # after
          \<and> list_all (\<lambda>x. validateEntry 0 x = None) before
          \<and> validateEntry (length before) entry = Some e"
    if "\<not> nullish registry" "getProp registry ''servers'' = JArr xs"
      "readRegistry (Doc registry) = Inl e"
  proof -
    have "validateEntries 0 xs = Some e"
      using that(3) by (auto simp: readRegistry_entries [OF that(1,2)] split: option.splits)
    from validateEntries_first [OF this] show ?thesis
      by simp
  qed
  show ?thesis
    using a b c by blast
qed

theorem validation_stops_at_first_violation_witness:
  "readRegistry (Doc (JObj [(''servers'', JArr
      [JObj [(''id'', JStr ''figma-mcp''), (''name'', JStr ''Figma MCP''),
             (''version'', JStr ''1.0.0'')],
       JObj [(''id'', JStr ''x''), (''name'', JStr ''X'')],
       JObj [(''id'', JStr ''a/b'')]])]))
   = Inl (MissingFieldError 1)
   \<and> readRegistry (Doc (JObj [(''servers'', JArr
      [JObj [(''id'', JStr ''figma-mcp''), (''name'', JStr ''Figma MCP''),
             (''version'', JStr ''1.0.0'')]])]))
     \<noteq> Inl (MissingFieldError 0)"
proof -
  let ?ok = "JObj [(''id'', JStr ''figma-mcp''), (''name'', JStr ''Figma MCP''),
                   (''version'', JStr ''1.0.0'')]"
  let ?bad = "JObj [(''id'', JStr ''x''), (''name'', JStr ''X'')]"
  let ?last = "JObj [(''id'', JStr ''a/b'')]"
  let ?r1 = "JObj [(''servers'', JArr [?ok, ?bad, ?last])]"
  let ?r2 = "JObj [(''servers'', JArr [?ok])]"
  have v: "isValidServerId (JStr ''figma-mcp'')"
    by (simp add: isValidServerId_spec specIdGrammar_def specIdAlphabet_def)
  have h1: "\<not> nullish ?r1 \<and> getProp ?r1 ''servers'' = JArr ([?ok] @ ?bad # [?last])
      \<and> list_all (\<lambda>x. validateEntry 0 x = None) [?ok] \<and> \<not> nullish ?bad
      \<and> (\<not> truthy (getProp ?bad ''id'') \<or> \<not> truthy (getProp ?bad ''name'')
           \<or> \<not> truthy (getProp ?bad ''version''))"
    using v by (simp add: validateEntry_def)
  have h2: "\<not> nullish ?r2 \<and> getProp ?r2 ''servers'' = JArr [?ok]
      \<and> list_all (\<lambda>x. \<not> nullish x \<and> truthy (getProp x ''id'') \<and> truthy (getProp x ''name'')
                       \<and> truthy (getProp x ''version'')) [?ok]"
    by simp
  have "readRegistry (Doc ?r1) = Inl (MissingFieldError (length [?ok]))"
    using h1 validation_stops_at_first_violation [of ?r1 "[?ok]" ?bad "[?last]"] by blast
  moreover have "readRegistry (Doc ?r2) \<noteq> Inl (MissingFieldError 0)"
    using h2 validation_stops_at_first_violation [of ?r2 _ _ _ "[?ok]" 0] by blast
  ultimately show ?thesis
    by simp
qed

lemma serverDetail_p1_same_document:
  assumes "getProp server ''id'' = JStr i" and "getProp server ''version'' = JStr v"
  shows "fst (serverDetail_p1 clk serversPath server w) = None
    \<and> map_of (files (snd (serverDetail_p1 clk serversPath server w)))
         (pjoin [pjoin [serversPath, i, ''versions'', ''latest''], ''index.json''])
       = Some (stringifyAt [] (fst (wrapServerResponse clk server True w)))
    \<and> map_of (files (snd (serverDetail_p1 clk serversPath server w)))
         (pjoin [pjoin [serversPath, i, ''versions'', v], ''index.json''])
       = Some (stringifyAt [] (fst (wrapServerResponse clk server True w)))"
proof -
  have n: "\<not> nullish server"
    using assms(1) by (cases server) simp_all
  show ?thesis
    using n
    by (simp add: serverDetail_p1_def assms Let_def withPath_def path_join_def split_beta
          seqAll_Cons seqAll_Nil fst_writeJSON fst_wrapServerResponse snd_wrapServerResponse
          files_writeJSON update_conv' del: stringifyAt.simps)
qed

section \<open>Falsy values in pages\<close>

lemma serverItem_text:
  \<open>serverItem = (\<lambda>s.
       let eId = (if truthy (getProp s ''id'')
                  then escapeHtml (JStr (toString (getProp s ''id''))) else []);
           eName = (if truthy (getProp s ''name'')
                    then escapeHtml (JStr (toString (getProp s ''name''))) else []);
           eVer = (if truthy (getProp s ''version'')
                   then escapeHtml (JStr (toString (getProp s ''version''))) else [])
       in join nl
         [[],
          ''            <li>'',
          ''              <strong><a href="v0.1/servers/'' @ eId @ ''/">'' @ eName @ ''</a></strong> (v'' @ eVer @ '')<br>'',
          ''              <small>'',
          ''                Endpoints: '',
          ''                <a href="v0.1/servers/'' @ eId @ ''/versions/latest/">latest</a> | '',
          ''                <a href="v0.1/servers/'' @ eId @ ''/versions/'' @ eVer @ ''/">v'' @ eVer @ ''</a>'',
          ''              </small>'',
          ''            </li>''])\<close>
  unfolding escapeHtml_string
  by (rule ext) (simp add: serverItem_def API_BASE_def Let_def escapeHtml_general)

lemma generateIndexPage_file:
  assumes "\<not> nullish registry" and "getProp registry ''servers'' = JArr xs"
    and "\<not> list_ex nullish xs"
  shows "fst (generateIndexPage clk registry w) = None"
    and "map_of (files (snd (generateIndexPage clk registry w))) ''dist/index.html''
         = Some (landingPage (toString (JNum (int (length xs))))
                   (join nl (map serverItem xs)) (clk (ticks w)))"
  using assms
  by (simp_all add: generateIndexPage_def Let_def path_landing writeFileSync_def update_conv')

lemma readRegistry_fields_truthy:
  assumes "\<not> nullish registry" and "getProp registry ''servers'' = JArr xs"
    and "readRegistry (Doc registry) = Inr r"
  shows "list_all (\<lambda>x. truthy (getProp x ''id'') \<and> truthy (getProp x ''name'')
                       \<and> truthy (getProp x ''version'')) xs"
proof -
  have v: "validateEntries 0 xs = None"
    using assms(3) by (simp add: readRegistry_entries [OF assms(1,2)] split: option.splits)
  have "validateEntries i ys = None \<Longrightarrow>
        list_all (\<lambda>x. truthy (getProp x ''id'') \<and> truthy (getProp x ''name'')
                       \<and> truthy (getProp x ''version'')) ys" for i ys
  proof (induction ys arbitrary: i)
    case Nil
    show ?case by simp
  next
    case (Cons y ys)
    then show ?case
      by (auto simp: validateEntry_def split: option.splits if_splits)
  qed
  from this [OF v] show ?thesis .
qed

text \<open>
  Claim C10, as stated, fails for the titles of \<^verbatim>\<open>part_000\<close>, which are put together
  before they are escaped: for the one server \<^verbatim>\<open>{id: "a", version: "1"}\<close>, which has no
  name, the page at the version endpoint has the title \<^verbatim>\<open>undefined v1\<close>.
\<close>

theorem missing_name_renders_undefined_in_title:
  "map_of (files (snd (main_p0 (\<lambda>n. ''2025-01-01T00:00:00.000Z'')
     (Doc (JObj [(''servers'', JArr [JObj [(''id'', JStr ''a''), (''version'', JStr ''1'')]])]))
     \<lparr>files = [], dirs = [], ticks = 0\<rparr>))) ''dist/v0.1/servers/a/versions/1/index.html''
   = Some (htmlPage_p0 ''undefined v1''
       (escapeHtml (JStr (stringifyAt []
          (JObj [(''server'', JObj [(''$schema'', JStr SCHEMA_URL), (''id'', JStr ''a''),
                                    (''version'', JStr ''1'')]),
                 (''_meta'', JObj [(''io.modelcontextprotocol.registry/official'', JObj
                    [(''status'', JStr ''active''),
                     (''publishedAt'', JStr ''2025-01-01T00:00:00.000Z''),
                     (''updatedAt'', JStr ''2025-01-01T00:00:00.000Z''),
                     (''isLatest'', JBool True)])])])))))"
proof -
  let ?clk = "\<lambda>n::nat. ''2025-01-01T00:00:00.000Z''"
  let ?s = "JObj [(''id'', JStr ''a''), (''version'', JStr ''1'')]"
  let ?reg = "JObj [(''servers'', JArr [?s])]"
  let ?w = "\<lparr>files = [], dirs = [], ticks = 0\<rparr>"
  define w2 where "w2 = snd (generateServersEndpoint_p0 ?reg (cleanOutputDir ?w))"
  have a: "\<not> nullish ?reg" "getProp ?reg ''servers'' = JArr [?s]"
    "getProp ?s ''id'' = JStr ''a''" "getProp ?s ''version'' = JStr ''1''"
    by simp_all
  have t: "escapeHtml (JStr (toString (getProp ?s ''name'') @ '' v1'')) = ''undefined v1''"
    by (simp add: escapeHtml_string escapeChar_def)
  show ?thesis
    by (simp add: main_p0_one_server(2) [OF a] serverDetail_p0_result(2) [OF a(3,4)]
          w2_def [symmetric] fst_wrapServerResponse spread_def META_KEY_def t paths_a1
          update_conv' del: stringifyAt.simps getProp.simps toString.simps)
qed

text \<open>
  Claim C10, amended. \<^verbatim>\<open>escapeHtml\<close> maps every falsy input (\<^verbatim>\<open>undefined\<close>, \<^verbatim>\<open>null\<close>, the empty
  string, \<^verbatim>\<open>0\<close>, \<^verbatim>\<open>false\<close>) to the empty string. \<^verbatim>\<open>generateIndexPage\<close> of
  \<^verbatim>\<open>generate-registry-endpoints.js\<close> escapes id, name and version one by one: for every
  registry whose \<^verbatim>\<open>servers\<close> is an array without \<^verbatim>\<open>null\<close> entries, the landing page it
  writes is the text given below in full, in which the text of a field is the escaped
  field when the field is truthy and empty when it is missing or falsy. (In a run of
  \<^verbatim>\<open>main\<close> the three fields of every entry are truthy by then, since \<^verbatim>\<open>readRegistry\<close> has
  let the registry pass.) A title is one string by the time it is escaped: the text of
  a missing field in it is \<^verbatim>\<open>undefined\<close>, that of a \<^verbatim>\<open>null\<close> field \<^verbatim>\<open>null\<close>.
\<close>

theorem escapeHtml_falsy_is_empty:
  \<open>(\<not> truthy v \<longrightarrow> escapeHtml v = [])
   \<and> escapeHtml JUndefined = [] \<and> escapeHtml JNull = [] \<and> escapeHtml (JStr []) = []
   \<and> escapeHtml (JNum 0) = [] \<and> escapeHtml (JBool False) = []
   \<and> (\<not> nullish registry \<and> getProp registry ''servers'' = JArr xs \<and> \<not> list_ex nullish xs
      \<longrightarrow> fst (generateIndexPage clk registry w) = None
        \<and> map_of (files (snd (generateIndexPage clk registry w))) ''dist/index.html''
          = Some (join nl
               [''<!DOCTYPE html>'',
                ''<html lang="en">'',
                ''<head>'',
                ''  <meta charset="UTF-8">'',
                ''  <title>MCP Registry</title>'',
                ''  <style>'',
                ''    body { font-family: system-ui, sans-serif; max-width: 800px; margin: 0 auto; padding: 20px; line-height: 1.6; }'',
                ''    h1 { border-bottom: 3px solid #007bff; padding-bottom: 10px; }'',
                ''    .card { background: #f9f9f9; padding: 20px; border-radius: 8px; margin-bottom: 20px; border: 1px solid #ddd; }'',
                ''    code { background: #eee; padding: 2px 5px; border-radius: 4px; }'',
                ''  </style>'',
                ''</head>'',
                ''<body>'',
                ''  <h1>MCP Private Registry</h1>'',
                ''  '',
                ''  <div class="card">'',
                ''    <p>This is a static MCP registry hosting <strong>'' @ toString (JNum (int (length xs))) @ ''</strong> servers.</p>'',
                ''    <p><strong>Base URL for Copilot:</strong> <code>YOUR_PAGES_URL</code></p>'',
                ''  </div>'',
                [],
                ''  <h3>Available Servers</h3>'',
                ''  <ul>'' @ 
                  join nl (map (\<lambda>s.
                      let eId = (if truthy (getProp s ''id'')
                                 then escapeHtml (JStr (toString (getProp s ''id''))) else []);
                          eName = (if truthy (getProp s ''name'')
                                   then escapeHtml (JStr (toString (getProp s ''name''))) else []);
                          eVer = (if truthy (getProp s ''version'')
                                  then escapeHtml (JStr (toString (getProp s ''version''))) else [])
                      in join nl
                        [[],
                         ''            <li>'',
                         ''              <strong><a href="v0.1/servers/'' @ eId @ ''/">'' @ eName @ ''</a></strong> (v'' @ eVer @ '')<br>'',
                         ''              <small>'',
                         ''                Endpoints: '',
                         ''                <a href="v0.1/servers/'' @ eId @ ''/versions/latest/">latest</a> | '',
                         ''                <a href="v0.1/servers/'' @ eId @ ''/versions/'' @ eVer @ ''/">v'' @ eVer @ ''</a>'',
                         ''              </small>'',
                         ''            </li>'']) xs)
                   @ ''</ul>'',
                [],
                ''  <hr>'',
                ''  <p><small>Last updated: '' @ clk (ticks w) @ ''</small></p>'',
                ''</body>'',
                ''</html>'']))
   \<and> (\<not> nullish registry \<and> getProp registry ''servers'' = JArr xs
        \<and> readRegistry (Doc registry) = Inr passed
      \<longrightarrow> list_all (\<lambda>x. truthy (getProp x ''id'') \<and> truthy (getProp x ''name'')
                          \<and> truthy (getProp x ''version'')) xs)
   \<and> escapeHtml (JStr (toString JUndefined @ rest)) = ''undefined'' @ escapeHtml (JStr rest)
   \<and> escapeHtml (JStr (toString JNull @ rest)) = ''null'' @ escapeHtml (JStr rest)\<close>
  (is "_ \<and> _ \<and> _ \<and> _ \<and> _ \<and> _ \<and> (_ \<longrightarrow> _ \<and> _ = Some ?page) \<and> _")
proof -
  have u: "escapeHtml (JStr ''undefined'') = ''undefined''"
    and n: "escapeHtml (JStr ''null'') = ''null''"
    by (simp_all add: escapeHtml_string escapeChar_def)
  have a: "\<not> truthy v \<longrightarrow> escapeHtml v = []"
    by (simp add: escapeHtml_falsy)
  have b: "escapeHtml JUndefined = []" "escapeHtml JNull = []" "escapeHtml (JStr []) = []"
    "escapeHtml (JNum 0) = []" "escapeHtml (JBool False) = []"
    by (simp_all add: escapeHtml_falsy)
  have page: "landingPage (toString (JNum (int (length xs)))) (join nl (map serverItem xs))
                (clk (ticks w)) = ?page"
    by (simp only: landingPage_def serverItem_text)
  have c: "\<not> nullish registry \<and> getProp registry ''servers'' = JArr xs \<and> \<not> list_ex nullish xs
      \<longrightarrow> fst (generateIndexPage clk registry w) = None
        \<and> map_of (files (snd (generateIndexPage clk registry w))) ''dist/index.html''
          = Some ?page"
    using generateIndexPage_file [of registry xs clk w] by (simp only: page) blast
  have f: "\<not> nullish registry \<and> getProp registry ''servers'' = JArr xs
        \<and> readRegistry (Doc registry) = Inr passed
      \<longrightarrow> list_all (\<lambda>x. truthy (getProp x ''id'') \<and> truthy (getProp x ''name'')
                          \<and> truthy (getProp x ''version'')) xs"
    using readRegistry_fields_truthy [of registry xs passed] by blast
  have d: "escapeHtml (JStr (toString JUndefined @ rest)) = ''undefined'' @ escapeHtml (JStr rest)"
    by (simp only: toString.simps escapeHtml_append u)
  have e: "escapeHtml (JStr (toString JNull @ rest)) = ''null'' @ escapeHtml (JStr rest)"
    by (simp only: toString.simps escapeHtml_append n)
  show ?thesis
    using a b c f d e by blast
qed

theorem escapeHtml_falsy_is_empty_witness:
  \<open>escapeHtml (getProp (JObj [(''id'', JStr ''a'')]) ''name'') = []
   \<and> map_of (files (snd (generateIndexPage (\<lambda>n. ''2025-01-01T00:00:00.000Z'')
        (JObj [(''servers'', JArr [JObj [(''id'', JStr ''a'')]])])
        \<lparr>files = [], dirs = [''dist''], ticks = 0\<rparr>))) ''dist/index.html''
     = Some (join nl
          [''<!DOCTYPE html>'',
           ''<html lang="en">'',
           ''<head>'',
           ''  <meta charset="UTF-8">'',
           ''  <title>MCP Registry</title>'',
           ''  <style>'',
           ''    body { font-family: system-ui, sans-serif; max-width: 800px; margin: 0 auto; padding: 20px; line-height: 1.6; }'',
           ''    h1 { border-bottom: 3px solid #007bff; padding-bottom: 10px; }'',
           ''    .card { background: #f9f9f9; padding: 20px; border-radius: 8px; margin-bottom: 20px; border: 1px solid #ddd; }'',
           ''    code { background: #eee; padding: 2px 5px; border-radius: 4px; }'',
           ''  </style>'',
           ''</head>'',
           ''<body>'',
           ''  <h1>MCP Private Registry</h1>'',
           ''  '',
           ''  <div class="card">'',
           ''    <p>This is a static MCP registry hosting <strong>'' @ ''1'' @ ''</strong> servers.</p>'',
           ''    <p><strong>Base URL for Copilot:</strong> <code>YOUR_PAGES_URL</code></p>'',
           ''  </div>'',
           [],
           ''  <h3>Available Servers</h3>'',
           ''  <ul>'' @ 
             join nl
                 [[],
                  ''            <li>'',
                  ''              <strong><a href="v0.1/servers/a/"></a></strong> (v)<br>'',
                  ''              <small>'',
                  ''                Endpoints: '',
                  ''                <a href="v0.1/servers/a/versions/latest/">latest</a> | '',
                  ''                <a href="v0.1/servers/a/versions//">v</a>'',
                  ''              </small>'',
                  ''            </li>'']
              @ ''</ul>'',
           [],
           ''  <hr>'',
           ''  <p><small>Last updated: '' @ ''2025-01-01T00:00:00.000Z'' @ ''</small></p>'',
           ''</body>'',
           ''</html>''])
   \<and> list_all (\<lambda>x. truthy (getProp x ''id'') \<and> truthy (getProp x ''name'')
                     \<and> truthy (getProp x ''version''))
        [JObj [(''id'', JStr ''figma-mcp''), (''name'', JStr ''Figma MCP''),
               (''version'', JStr ''1.0.0'')]]\<close>
proof -
  let ?clk = "\<lambda>n::nat. ''2025-01-01T00:00:00.000Z''"
  let ?s = "JObj [(''id'', JStr ''a'')]"
  let ?reg = "JObj [(''servers'', JArr [?s])]"
  let ?w = "\<lparr>files = [], dirs = [''dist''], ticks = 0\<rparr>"
  let ?ok = "JObj [(''id'', JStr ''figma-mcp''), (''name'', JStr ''Figma MCP''),
                   (''version'', JStr ''1.0.0'')]"
  let ?reg2 = "JObj [(''servers'', JArr [?ok])]"
  have n: "\<not> truthy (getProp ?s ''name'')"
    by simp
  have h: "\<not> nullish ?reg \<and> getProp ?reg ''servers'' = JArr [?s] \<and> \<not> list_ex nullish [?s]"
    by simp
  have v: "isValidServerId (JStr ''figma-mcp'')"
    by (simp add: isValidServerId_spec specIdGrammar_def specIdAlphabet_def)
  have h2: "\<not> nullish ?reg2 \<and> getProp ?reg2 ''servers'' = JArr [?ok]
            \<and> readRegistry (Doc ?reg2) = Inr ?reg2"
    using v by (simp add: readRegistry_def validateEntry_def)
  have one: "escapeHtml (getProp ?s ''name'') = []"
    using n escapeHtml_falsy_is_empty [of "getProp ?s ''name''" ?reg "[?s]" ?clk ?w ?reg "[]"]
    by blast
  have two: \<open>map_of (files (snd (generateIndexPage ?clk ?reg ?w))) ''dist/index.html''
             = Some (join nl
                 [''<!DOCTYPE html>'',
                  ''<html lang="en">'',
                  ''<head>'',
                  ''  <meta charset="UTF-8">'',
                  ''  <title>MCP Registry</title>'',
                  ''  <style>'',
                  ''    body { font-family: system-ui, sans-serif; max-width: 800px; margin: 0 auto; padding: 20px; line-height: 1.6; }'',
                  ''    h1 { border-bottom: 3px solid #007bff; padding-bottom: 10px; }'',
                  ''    .card { background: #f9f9f9; padding: 20px; border-radius: 8px; margin-bottom: 20px; border: 1px solid #ddd; }'',
                  ''    code { background: #eee; padding: 2px 5px; border-radius: 4px; }'',
                  ''  </style>'',
                  ''</head>'',
                  ''<body>'',
                  ''  <h1>MCP Private Registry</h1>'',
                  ''  '',
                  ''  <div class="card">'',
                  ''    <p>This is a static MCP registry hosting <strong>'' @ ''1'' @ ''</strong> servers.</p>'',
                  ''    <p><strong>Base URL for Copilot:</strong> <code>YOUR_PAGES_URL</code></p>'',
                  ''  </div>'',
                  [],
                  ''  <h3>Available Servers</h3>'',
                  ''  <ul>'' @ 
                    join nl
                        [[],
                         ''            <li>'',
                         ''              <strong><a href="v0.1/servers/a/"></a></strong> (v)<br>'',
                         ''              <small>'',
                         ''                Endpoints: '',
                         ''                <a href="v0.1/servers/a/versions/latest/">latest</a> | '',
                         ''                <a href="v0.1/servers/a/versions//">v</a>'',
                         ''              </small>'',
                         ''            </li>'']
                     @ ''</ul>'',
                  [],
                  ''  <hr>'',
                  ''  <p><small>Last updated: '' @ ''2025-01-01T00:00:00.000Z'' @ ''</small></p>'',
                  ''</body>'',
                  ''</html>''])\<close>
    using h escapeHtml_falsy_is_empty [of "getProp ?s ''name''" ?reg "[?s]" ?clk ?w ?reg "[]"]
    by (simp add: numberToString_def digits.simps escapeHtml_string escapeChar_def)
  have three: "list_all (\<lambda>x. truthy (getProp x ''id'') \<and> truthy (getProp x ''name'')
                     \<and> truthy (getProp x ''version'')) [?ok]"
    using h2 escapeHtml_falsy_is_empty [of "getProp ?s ''name''" ?reg2 "[?ok]" ?clk ?w ?reg2 "[]"]
    by blast
  show ?thesis
    using one two three by blast
qed

section \<open>Leaves of a path\<close>

lemma splitOn_nonempty: "splitOn c xs \<noteq> []"
  by (induction xs) (auto split: list.splits)

lemma splitOn_append: "splitOn c (xs @ c # ys) = splitOn c xs @ splitOn c ys"
proof (induction xs)
  case Nil
  show ?case by simp
next
  case (Cons x xs)
  obtain s ss where s: "splitOn c xs = s # ss"
    using splitOn_nonempty [of c xs] by (cases "splitOn c xs") auto
  show ?case
    by (simp add: Cons.IH s)
qed

lemma splitOn_plain: "c \<notin> set xs \<Longrightarrow> splitOn c xs = [xs]"
  by (induction xs) auto

lemma normSegs_snoc:
  "seg \<noteq> [] \<Longrightarrow> seg \<noteq> ''.'' \<Longrightarrow> seg \<noteq> ''..'' \<Longrightarrow>
   normSegs b acc (xs @ [seg]) = normSegs b acc xs @ [seg]"
  by (induction xs arbitrary: acc) auto

lemma join_snoc:
  "join sep (ys @ [seg]) = (if ys = [] then seg else join sep ys @ sep @ seg)"
  by (induction sep ys rule: join.induct) auto

lemma join_nonempty: "seg \<noteq> [] \<Longrightarrow> join sep (ys @ [seg]) \<noteq> []"
  by (simp add: join_snoc)

lemma pjoin_leaf:
  "\<exists>pre. \<forall>seg. seg \<noteq> [] \<and> seg \<noteq> ''.'' \<and> seg \<noteq> ''..'' \<and> CHR ''/'' \<notin> set seg
     \<longrightarrow> pjoin [p, seg] = pre @ seg"
proof (cases "p = []")
  case True
  have "pjoin [p, seg] = [] @ seg"
    if "seg \<noteq> []" "seg \<noteq> ''.''" "seg \<noteq> ''..''" "CHR ''/'' \<notin> set seg" for seg
  proof -
    have "last seg \<noteq> CHR ''/''" "hd seg \<noteq> CHR ''/''"
      using that(1,4) by (metis last_in_set, metis hd_in_set)
    then show ?thesis
      using that by (simp add: pjoin_def True normalize_path_def splitOn_plain Let_def)
  qed
  then show ?thesis by blast
next
  case False
  let ?abs = "hd p = CHR ''/''"
  let ?ys = "normSegs (\<not> ?abs) [] (splitOn CHR ''/'' p)"
  let ?pre = "(if ?abs then ''/'' else []) @ (if ?ys = [] then [] else join ''/'' ?ys @ ''/'')"
  have "pjoin [p, seg] = ?pre @ seg"
    if "seg \<noteq> []" "seg \<noteq> ''.''" "seg \<noteq> ''..''" "CHR ''/'' \<notin> set seg" for seg
  proof -
    have l: "last seg \<noteq> CHR ''/''"
      using that(1,4) by (metis last_in_set)
    have j: "join ''/'' [p, seg] = p @ CHR ''/'' # seg"
      by simp
    have h: "hd (p @ CHR ''/'' # seg) = hd p" "last (p @ CHR ''/'' # seg) = last seg"
      using False that(1) by simp_all
    have s: "splitOn CHR ''/'' (p @ CHR ''/'' # seg) = splitOn CHR ''/'' p @ [seg]"
      by (simp add: splitOn_append splitOn_plain that(4))
    have n: "normSegs (\<not> ?abs) [] (splitOn CHR ''/'' p @ [seg]) = ?ys @ [seg]"
      by (rule normSegs_snoc [OF that(1-3)])
    have q: "join ''/'' (?ys @ [seg]) \<noteq> []"
      by (rule join_nonempty [OF that(1)])
    have "pjoin [p, seg] = normalize_path (p @ CHR ''/'' # seg)"
      using False that(1) by (simp add: pjoin_def)
    also have "\<dots> = (if ?abs then ''/'' else []) @ join ''/'' (?ys @ [seg])"
      using q l by (simp add: normalize_path_def h s n Let_def del: join.simps)
    also have "\<dots> = ?pre @ seg"
      by (simp add: join_snoc del: join.simps)
    finally show ?thesis .
  qed
  then show ?thesis by blast
qed

lemma pjoin_json_html_differ: "pjoin [p, ''index.json''] \<noteq> pjoin [p, ''index.html'']"
proof -
  obtain pre where "pjoin [p, ''index.json''] = pre @ ''index.json''"
    and "pjoin [p, ''index.html''] = pre @ ''index.html''"
    using pjoin_leaf [of p] by force
  then show ?thesis by simp
qed

lemma pjoin_json_html_differ': "pjoin [p, ''index.json''] \<noteq> pjoin [p', ''index.html'']"
proof -
  obtain pre where a: "pjoin [p, ''index.json''] = pre @ ''index.json''"
    using pjoin_leaf [of p] by force
  obtain pre' where b: "pjoin [p', ''index.html''] = pre' @ ''index.html''"
    using pjoin_leaf [of p'] by force
  have "length ''index.json'' = length ''index.html''"
    by simp
  then have "pre @ ''index.json'' = pre' @ ''index.html'' \<longrightarrow> ''index.json'' = ''index.html''"
    by (metis append_eq_append_conv)
  then show ?thesis
    using a b by simp
qed

lemma serverDetail_same_document:
  assumes "getProp server ''id'' = JStr i" and "getProp server ''version'' = JStr v"
  shows "fst (serverDetail server w) = None
    \<and> map_of (files (snd (serverDetail server w)))
         (pjoin [pjoin [pjoin [OUTPUT_DIR, API_BASE, ''servers'', i], ''versions'', v],
                 ''index.json''])
       = Some (stringifyAt [] server)
    \<and> map_of (files (snd (serverDetail server w)))
         (pjoin [pjoin [pjoin [OUTPUT_DIR, API_BASE, ''servers'', i], ''versions'', ''latest''],
                 ''index.json''])
       = Some (stringifyAt [] server)"
proof -
  have n: "\<not> nullish server" "server \<noteq> JUndefined"
    using assms(1) by (cases server; simp)+
  show ?thesis
    using n
    by (simp add: serverDetail_def assms Let_def withPath_def path_join_def seqAll_Cons
          seqAll_Nil fst_writeJSON fst_writeHTML files_writeJSON files_writeHTML update_conv'
          pjoin_json_html_differ' del: stringifyAt.simps)
qed

section \<open>The meta block of the envelope\<close>

lemma serverDetail_p0_documents:
  assumes "getProp server ''id'' = JStr i" and "getProp server ''version'' = JStr v"
  shows "map_of (files (snd (serverDetail_p0 clk server w)))
           (pjoin [pjoin [OUTPUT_DIR, API_BASE, ''servers'', i, ''versions'', ''latest''],
                   ''index.json''])
         = Some (stringifyAt []
             (fst (wrapServerResponse clk server True (w\<lparr>ticks := Suc (ticks w)\<rparr>))))"
    and "map_of (files (snd (serverDetail_p0 clk server w)))
           (pjoin [pjoin [OUTPUT_DIR, API_BASE, ''servers'', i, ''versions'', v],
                   ''index.json''])
         = Some (stringifyAt []
             (fst (wrapServerResponse clk server True
                (if pjoin [pjoin [OUTPUT_DIR, API_BASE, ''servers'', i, ''versions'', v],
                           ''index.json'']
                    = pjoin [pjoin [OUTPUT_DIR, API_BASE, ''servers'', i, ''versions'',
                                    ''latest''], ''index.json'']
                 then w\<lparr>ticks := Suc (ticks w)\<rparr> else w))))"
  by (simp_all add: serverDetail_p0_result(2) [OF assms] update_conv' pjoin_json_html_differ'
        del: stringifyAt.simps)

text \<open>
  Claim C6. For every value handed to \<^verbatim>\<open>wrapServerResponse\<close> with \<^verbatim>\<open>isLatest\<close> true, under
  every clock and in every state, the block of \<^verbatim>\<open>_meta\<close> under the key
  \<^verbatim>\<open>io.modelcontextprotocol.registry/official\<close> has the status \<^verbatim>\<open>active\<close>, \<^verbatim>\<open>publishedAt\<close>
  and \<^verbatim>\<open>updatedAt\<close> both equal to the one clock reading of that call, and \<^verbatim>\<open>isLatest\<close>
  true. And for every server whose id and version are strings, the JSON files at the
  version endpoint and at the latest endpoint, in \<^verbatim>\<open>part_001\<close> and in \<^verbatim>\<open>part_000\<close>, are
  serialisations of such envelopes (in \<^verbatim>\<open>part_001\<close> of one envelope; in \<^verbatim>\<open>part_000\<close> of
  the envelope built at the first reading for the version endpoint and at the next
  reading for the latest endpoint).
\<close>

theorem envelope_meta_block:
  "getProp (getProp (getProp (fst (wrapServerResponse clk serverData True w)) ''_meta'')
      ''io.modelcontextprotocol.registry/official'') ''status'' = JStr ''active''
   \<and> getProp (getProp (getProp (fst (wrapServerResponse clk serverData True w)) ''_meta'')
      ''io.modelcontextprotocol.registry/official'') ''publishedAt'' = JStr (clk (ticks w))
   \<and> getProp (getProp (getProp (fst (wrapServerResponse clk serverData True w)) ''_meta'')
      ''io.modelcontextprotocol.registry/official'') ''updatedAt'' = JStr (clk (ticks w))
   \<and> getProp (getProp (getProp (fst (wrapServerResponse clk serverData True w)) ''_meta'')
      ''io.modelcontextprotocol.registry/official'') ''isLatest'' = JBool True
   \<and> (getProp server ''id'' = JStr i \<and> getProp server ''version'' = JStr v \<longrightarrow>
        map_of (files (snd (serverDetail_p1 clk serversPath server w)))
          (pjoin [pjoin [serversPath, i, ''versions'', v], ''index.json''])
        = Some (stringifyAt [] (fst (wrapServerResponse clk server True w)))
      \<and> map_of (files (snd (serverDetail_p1 clk serversPath server w)))
          (pjoin [pjoin [serversPath, i, ''versions'', ''latest''], ''index.json''])
        = Some (stringifyAt [] (fst (wrapServerResponse clk server True w)))
      \<and> map_of (files (snd (serverDetail_p0 clk server w)))
          (pjoin [pjoin [OUTPUT_DIR, API_BASE, ''servers'', i, ''versions'', ''latest''],
                  ''index.json''])
        = Some (stringifyAt []
            (fst (wrapServerResponse clk server True (w\<lparr>ticks := Suc (ticks w)\<rparr>))))
      \<and> map_of (files (snd (serverDetail_p0 clk server w)))
          (pjoin [pjoin [OUTPUT_DIR, API_BASE, ''servers'', i, ''versions'', v],
                  ''index.json''])
        = Some (stringifyAt []
            (fst (wrapServerResponse clk server True
               (if pjoin [pjoin [OUTPUT_DIR, API_BASE, ''servers'', i, ''versions'', v],
                          ''index.json'']
                   = pjoin [pjoin [OUTPUT_DIR, API_BASE, ''servers'', i, ''versions'',
                                   ''latest''], ''index.json'']
                then w\<lparr>ticks := Suc (ticks w)\<rparr> else w)))))"
proof -
  have m: "getProp (getProp (getProp (fst (wrapServerResponse clk serverData True w)) ''_meta'')
      ''io.modelcontextprotocol.registry/official'') k
    = getProp (JObj [(''status'', JStr ''active''), (''publishedAt'', JStr (clk (ticks w))),
                     (''updatedAt'', JStr (clk (ticks w))), (''isLatest'', JBool True)]) k" for k
    by (simp add: wrapServerResponse_def Let_def META_KEY_def)
  show ?thesis
    using serverDetail_p1_same_document [of server i v clk serversPath w]
      serverDetail_p0_documents [of server i v clk w]
    by (simp only: m) simp
qed

theorem envelope_meta_block_witness:
  "map_of (files (snd (serverDetail_p1 (\<lambda>n. ''2025-01-01T00:00:00.000Z'') ''dist/v0.1/servers''
      (JObj [(''id'', JStr ''a''), (''name'', JStr ''A''), (''version'', JStr ''1'')])
      \<lparr>files = [], dirs = [], ticks = 0\<rparr>)))
     (pjoin [pjoin [''dist/v0.1/servers'', ''a'', ''versions'', ''latest''], ''index.json''])
   = Some (stringifyAt [] (fst (wrapServerResponse (\<lambda>n. ''2025-01-01T00:00:00.000Z'')
      (JObj [(''id'', JStr ''a''), (''name'', JStr ''A''), (''version'', JStr ''1'')]) True
      \<lparr>files = [], dirs = [], ticks = 0\<rparr>)))
   \<and> getProp (getProp (getProp (fst (wrapServerResponse (\<lambda>n. ''2025-01-01T00:00:00.000Z'')
      (JObj [(''id'', JStr ''a''), (''name'', JStr ''A''), (''version'', JStr ''1'')]) True
      \<lparr>files = [], dirs = [], ticks = 0\<rparr>)) ''_meta'')
      ''io.modelcontextprotocol.registry/official'') ''publishedAt''
     = JStr ''2025-01-01T00:00:00.000Z''"
proof -
  let ?s = "JObj [(''id'', JStr ''a''), (''name'', JStr ''A''), (''version'', JStr ''1'')]"
  have h: "getProp ?s ''id'' = JStr ''a'' \<and> getProp ?s ''version'' = JStr ''1''"
    by simp
  show ?thesis
    using h envelope_meta_block [of "\<lambda>n. ''2025-01-01T00:00:00.000Z''" ?s
        "\<lparr>files = [], dirs = [], ticks = 0\<rparr>" ?s "''a''" "''1''" "''dist/v0.1/servers''"]
    by (simp del: stringifyAt.simps getProp.simps)
qed

end
